theory Spec2Isabelle
  imports Complex_Main
begin

section \<open>Domain enumerations (domain/enums.py)\<close>

text \<open>
  Quantities, counters and timestamps are Python integers. Prices, cash and commissions are
  Python \<^verbatim>\<open>Decimal\<close> values; their arithmetic is the subject of the next section.
\<close>

datatype EventType = MARKET_TRADE | MARKET_DEPTH | SIGNAL | ORDER | FILL

datatype Side = BUY | SELL

datatype OrderCommand = DELETE | INSERT | UPDATE | UNKNOWN_4 | UNKNOWN_5 | UNKNOWN_6 | UNKNOWN_7

datatype OrderType = MARKET | LIMIT | STOP_MARKET

datatype OrderStatus = PENDING_SUBMIT | ACCEPTED | REJECTED | PARTIALLY_FILLED | FILLED
  | PENDING_CANCEL | CANCELLED | TRIGGERED

text \<open>
  The exceptions that the modelled code can raise. \<^verbatim>\<open>DecimalDivisionError\<close> stands for
  the signals of a Decimal division by zero (\<^verbatim>\<open>DivisionByZero\<close>, and
  \<^verbatim>\<open>InvalidOperation\<close> for zero by zero); \<^verbatim>\<open>TimestampError\<close> for the
  \<^verbatim>\<open>OverflowError\<close>, \<^verbatim>\<open>ValueError\<close> or \<^verbatim>\<open>OSError\<close> of
  \<^verbatim>\<open>datetime.fromtimestamp\<close>.
\<close>

datatype py_error = KeyError | DecimalDivisionError | TypeError | TimestampError | NameError

section \<open>Decimal arithmetic (the decimal context of backtest.py)\<close>

text \<open>
  A finite \<^verbatim>\<open>Decimal\<close> is modelled by the rational number it denotes. Building one
  (\<^verbatim>\<open>Decimal(int)\<close>, \<^verbatim>\<open>Decimal(str)\<close>) and comparing two are exact. Every
  arithmetic operation computes the exact result and rounds it to the precision of the
  decimal context, that is to \<^verbatim>\<open>prec\<close> significant digits with the rounding mode of
  the context, \<^verbatim>\<open>ROUND_HALF_EVEN\<close>. The module backtest.py sets the precision when it
  is imported: \<^verbatim>\<open>getcontext().prec = 12\<close>.

  The model is of finite values within the exponent range of the context: it has no
  infinity and no NaN (the one \<^verbatim>\<open>Decimal('inf')\<close> of the source is treated where it
  occurs), and no limit on exponents.
\<close>

definition prec :: int where
  "prec = 12"

text \<open>The number of decimal digits of a positive integer.\<close>

function digits10 :: "int \<Rightarrow> int" where
  "digits10 n = (if n < 10 then 1 else 1 + digits10 (n div 10))"
  by pat_completeness auto
termination
  by (relation "measure nat") auto

definition pow10 :: "int \<Rightarrow> rat" where
  "pow10 k = (if 0 \<le> k then 10 ^ nat k else 1 / 10 ^ nat (- k))"

text \<open>The exponent of the most significant digit of a number that is not zero
  (\<^verbatim>\<open>Decimal.adjusted()\<close>): \<open>pow10 (adjusted x) \<le> \<bar>x\<bar> < pow10 (adjusted x + 1)\<close>. For
  a fraction \<open>a / b\<close> it is the difference of the digit counts of \<open>a\<close> and \<open>b\<close>, or one
  less.\<close>

definition adjusted :: "rat \<Rightarrow> int" where
  "adjusted x =
     (let (a, b) = quotient_of \<bar>x\<bar>;
          d = digits10 a - digits10 b
      in if pow10 d \<le> \<bar>x\<bar> then d else d - 1)"

text \<open>Rounding to the nearest integer, a tie going to the even neighbour.\<close>

definition round_half_even :: "rat \<Rightarrow> int" where
  "round_half_even y =
     (let n = \<lfloor>y\<rfloor>; f = y - of_int n
      in if f < 1/2 then n else if 1/2 < f then n + 1 else if even n then n else n + 1)"

text \<open>The rounding that ends every operation: the result keeps \<open>prec\<close> significant
  digits, so the last digit kept has the exponent \<open>adjusted x - prec + 1\<close>.\<close>

definition round_to_context :: "rat \<Rightarrow> rat" where
  "round_to_context x =
     (if x = 0 then 0
      else (let quantum = pow10 (adjusted x - prec + 1)
            in of_int (round_half_even (x / quantum)) * quantum))"

definition dec_add :: "rat \<Rightarrow> rat \<Rightarrow> rat" where
  "dec_add a b = round_to_context (a + b)"

definition dec_sub :: "rat \<Rightarrow> rat \<Rightarrow> rat" where
  "dec_sub a b = round_to_context (a - b)"

definition dec_mul :: "rat \<Rightarrow> rat \<Rightarrow> rat" where
  "dec_mul a b = round_to_context (a * b)"

text \<open>Division by a divisor that is not zero; a zero divisor raises.\<close>

definition dec_div :: "rat \<Rightarrow> rat \<Rightarrow> rat" where
  "dec_div a b = round_to_context (a / b)"

definition dec_truediv :: "rat \<Rightarrow> rat \<Rightarrow> py_error + rat" where
  "dec_truediv a b = (if b = 0 then Inl DecimalDivisionError else Inr (dec_div a b))"

text \<open>A value that the context holds as it is: rounding does not change it.\<close>

definition representable :: "rat \<Rightarrow> bool" where
  "representable x \<longleftrightarrow> round_to_context x = x"

section \<open>Python dictionaries with insertion order\<close>

text \<open>
  A \<^verbatim>\<open>dict\<close> that the source iterates over is an association list in insertion order:
  assigning to a present key keeps its position, assigning to a new key appends, and
  \<^verbatim>\<open>del\<close> removes the entry.
\<close>

fun dict_set :: "'k \<Rightarrow> 'v \<Rightarrow> ('k \<times> 'v) list \<Rightarrow> ('k \<times> 'v) list" where
  "dict_set k v [] = [(k, v)]"
| "dict_set k v ((k', v') # xs) =
     (if k = k' then (k, v) # xs else (k', v') # dict_set k v xs)"

fun dict_del :: "'k \<Rightarrow> ('k \<times> 'v) list \<Rightarrow> ('k \<times> 'v) list" where
  "dict_del k [] = []"
| "dict_del k ((k', v') # xs) = (if k = k' then xs else (k', v') # dict_del k xs)"

text \<open>A value object held by a dictionary is mutated where it stands: the entry keeps its
  position and no entry is added.\<close>

definition dict_mutate :: "'k \<Rightarrow> 'v \<Rightarrow> ('k \<times> 'v) list \<Rightarrow> ('k \<times> 'v) list" where
  "dict_mutate k v xs = map (\<lambda>(k', v'). if k' = k then (k', v) else (k', v')) xs"

definition dict_get :: "('k \<times> 'v) list \<Rightarrow> 'k \<Rightarrow> 'v option" where
  "dict_get xs k = map_of xs k"

section \<open>Events (constructor calls of domain/events.py)\<close>

text \<open>
  The module domain/events.py is not part of the sources at hand. The event records below
  carry exactly the fields that the constructor calls and attribute reads of the other
  modules use; a field that a constructor call leaves out has the default of the data
  model of the specification (no price, no parent, nothing filled).
\<close>

record FillEvent =
  fill_timestamp :: int
  fill_order_id :: string
  fill_strategy_id :: string
  fill_symbol :: string
  fill_direction :: Side
  quantity_filled :: int
  fill_price :: rat
  commission :: rat
  fill_linked_stop_price :: "rat option"
  fill_linked_target_price :: "rat option"

text \<open>
  Modelled from the spec: the attribute \<^verbatim>\<open>fill_time\<close> of a fill, which the portfolio
  reads and no constructor call sets, is declared in domain/events.py. The specification
  records the entry and exit of a position at the timestamp of the fill
  (\<^verbatim>\<open>fill_ts\<close>), so \<^verbatim>\<open>fill_time\<close> is the fill's timestamp.
\<close>

definition fill_time :: "FillEvent \<Rightarrow> int" where
  "fill_time event = fill_timestamp event"

section \<open>Portfolio (core/portfolio.py)\<close>

datatype PositionDirection = LONG | SHORT

record OpenPosition =
  entry_time :: int
  entry_price :: rat
  op_quantity :: int
  op_direction :: PositionDirection
  op_commission :: rat

text \<open>
  A closed-trade record. The source converts the two times with
  \<^verbatim>\<open>datetime.fromtimestamp(ns / 1e9)\<close>; the record keeps the nanosecond integers. The
  conversion raises for a time that the float division, the platform or the time zone
  cannot turn into a \<^verbatim>\<open>datetime\<close>. Which nanosecond counts convert is outside the
  program: it is the parameter \<open>fromtimestamp_ok\<close> of the functions below.
\<close>

record TradeRecord =
  tr_symbol :: string
  tr_entry_time :: int
  tr_exit_time :: int
  tr_direction :: PositionDirection
  tr_entry_price :: rat
  tr_exit_price :: rat
  tr_quantity :: int
  tr_pnl :: rat
  tr_commission :: rat

record Portfolio =
  initial_capital :: rat
  cash :: rat
  pf_commission_per_contract :: rat
  tick_value :: rat
  pf_tick_size :: rat
  holdings :: "(string \<times> int) list"
  positions_avg_price :: "string \<rightharpoonup> rat"
  realized_pnl :: rat
  equity_curve :: "(int \<times> rat) list"
  last_market_price :: "string \<rightharpoonup> rat"
  trade_log :: "TradeRecord list"
  open_positions :: "string \<rightharpoonup> OpenPosition"

definition Portfolio_init :: "rat \<Rightarrow> rat \<Rightarrow> rat \<Rightarrow> rat \<Rightarrow> Portfolio" where
  "Portfolio_init initial_capital' commission_per_contract' tick_value' tick_size' =
     \<lparr> initial_capital = initial_capital', cash = initial_capital',
       pf_commission_per_contract = commission_per_contract',
       tick_value = tick_value', pf_tick_size = tick_size',
       holdings = [], positions_avg_price = Map.empty, realized_pnl = 0,
       equity_curve = [(0, initial_capital')], last_market_price = Map.empty,
       trade_log = [], open_positions = Map.empty \<rparr>"

text \<open>\<^verbatim>\<open>self.holdings[symbol]\<close> on a \<^verbatim>\<open>defaultdict(int)\<close>: a missing key reads as 0
  and is inserted.\<close>

definition holdings_get :: "(string \<times> int) list \<Rightarrow> string \<Rightarrow> int" where
  "holdings_get hs symbol = (case dict_get hs symbol of None \<Rightarrow> 0 | Some q \<Rightarrow> q)"

definition holdings_touch :: "(string \<times> int) list \<Rightarrow> string \<Rightarrow> (string \<times> int) list" where
  "holdings_touch hs symbol =
     (case dict_get hs symbol of None \<Rightarrow> dict_set symbol 0 hs | Some q \<Rightarrow> hs)"

text \<open>The loop of \<^verbatim>\<open>_update_equity\<close> over \<^verbatim>\<open>self.holdings.items()\<close>. A Decimal
  division by a zero tick size raises.\<close>

fun unrealized_loop :: "Portfolio \<Rightarrow> (string \<times> int) list \<Rightarrow> rat \<Rightarrow> py_error + rat" where
  "unrealized_loop self [] unrealized_pnl = Inr unrealized_pnl"
| "unrealized_loop self ((symbol, quantity) # rest) unrealized_pnl =
     (case (last_market_price self symbol, positions_avg_price self symbol) of
        (Some last_price, Some avg_price) \<Rightarrow>
          (if quantity \<noteq> 0 then
             (if pf_tick_size self = 0 then Inl DecimalDivisionError
              else
                (let price_diff = dec_sub last_price avg_price;
                     pnl_per_contract =
                       dec_mul (dec_div price_diff (pf_tick_size self)) (tick_value self)
                 in unrealized_loop self rest
                      (dec_add unrealized_pnl (dec_mul pnl_per_contract (of_int quantity)))))
           else unrealized_loop self rest unrealized_pnl)
      | _ \<Rightarrow> unrealized_loop self rest unrealized_pnl)"

definition update_equity :: "Portfolio \<Rightarrow> int \<Rightarrow> py_error + Portfolio" where
  "update_equity self timestamp =
     (case unrealized_loop self (holdings self) 0 of
        Inl e \<Rightarrow> Inl e
      | Inr unrealized_pnl \<Rightarrow>
          (let current_equity = dec_add (cash self) unrealized_pnl
           in if equity_curve self = [] \<or> fst (last (equity_curve self)) < timestamp
              then Inr (self\<lparr>equity_curve := equity_curve self @ [(timestamp, current_equity)]\<rparr>)
              else if current_equity \<noteq> snd (last (equity_curve self))
              then Inr (self\<lparr>equity_curve :=
                          butlast (equity_curve self) @ [(timestamp, current_equity)]\<rparr>)
              else Inr self))"

definition new_open_position :: "FillEvent \<Rightarrow> int \<Rightarrow> OpenPosition" where
  "new_open_position event new_pos =
     \<lparr> entry_time = fill_time event, entry_price = fill_price event, op_quantity = new_pos,
       op_direction = (if new_pos > 0 then LONG else SHORT),
       op_commission = commission event \<rparr>"

text \<open>The branch "closing or flipping" of \<^verbatim>\<open>update_fill\<close>. The realized profit is
  added first; then the entry of the trade log is built, which converts the entry time and
  the exit time.\<close>

definition close_or_flip ::
  "(int \<Rightarrow> bool) \<Rightarrow> Portfolio \<Rightarrow> FillEvent \<Rightarrow> int \<Rightarrow> int \<Rightarrow> py_error + Portfolio" where
  "close_or_flip fromtimestamp_ok self event current_pos new_pos =
     (let symbol = fill_symbol event; qty = quantity_filled event; price = fill_price event;
          comm = commission event;
          qty_closed = min \<bar>current_pos\<bar> qty
      in case open_positions self symbol of
           None \<Rightarrow> Inr self
         | Some entry_details \<Rightarrow>
             (let avg_entry_price = entry_price entry_details;
                  pnl_dir = (if op_direction entry_details = LONG then 1 else -1 :: int);
                  pnl = dec_mul (dec_mul (dec_sub price avg_entry_price) (of_int pnl_dir))
                          (of_int qty_closed)
              in if pf_tick_size self = 0 then Inl DecimalDivisionError
                 else if \<not> fromtimestamp_ok (entry_time entry_details)
                         \<or> \<not> fromtimestamp_ok (fill_time event)
                 then Inl TimestampError
                 else
                   (let self1 = self\<lparr>realized_pnl :=
                                      dec_add (realized_pnl self)
                                        (dec_mul (dec_div pnl (pf_tick_size self))
                                           (tick_value self))\<rparr>;
                        self2 = self1\<lparr>trade_log := trade_log self1 @
                                  [\<lparr> tr_symbol = symbol, tr_entry_time = entry_time entry_details,
                                     tr_exit_time = fill_time event,
                                     tr_direction = op_direction entry_details,
                                     tr_entry_price = avg_entry_price, tr_exit_price = price,
                                     tr_quantity = qty_closed,
                                     tr_pnl = dec_mul (dec_div pnl (pf_tick_size self))
                                                (tick_value self),
                                     tr_commission =
                                       dec_add (op_commission entry_details) comm \<rparr>]\<rparr>
                    in if new_pos = 0 then
                         (case positions_avg_price self2 symbol of
                            None \<Rightarrow> Inl KeyError
                          | Some _ \<Rightarrow>
                              Inr (self2\<lparr>open_positions := (open_positions self2)(symbol := None),
                                         positions_avg_price :=
                                           (positions_avg_price self2)(symbol := None)\<rparr>))
                       else
                         Inr (self2\<lparr>positions_avg_price :=
                                      (positions_avg_price self2)(symbol \<mapsto> price),
                                    open_positions :=
                                      (open_positions self2)(symbol \<mapsto>
                                         new_open_position event new_pos)\<rparr>))))"

text \<open>The branch "opening or adding" of \<^verbatim>\<open>update_fill\<close>. The new position is not
  zero in this branch, so the division cannot raise.\<close>

definition open_or_add :: "Portfolio \<Rightarrow> FillEvent \<Rightarrow> int \<Rightarrow> int \<Rightarrow> int \<Rightarrow> py_error + Portfolio" where
  "open_or_add self event current_pos pos_change new_pos =
     (let symbol = fill_symbol event; price = fill_price event; comm = commission event
      in if current_pos = 0 then
           Inr (self\<lparr>positions_avg_price := (positions_avg_price self)(symbol \<mapsto> price),
                     open_positions :=
                       (open_positions self)(symbol \<mapsto> new_open_position event new_pos)\<rparr>)
         else
           (case positions_avg_price self symbol of
              None \<Rightarrow> Inl KeyError
            | Some avg \<Rightarrow>
                (let old_val = dec_mul avg (of_int current_pos);
                     new_val = dec_mul price (of_int pos_change);
                     self1 = self\<lparr>positions_avg_price :=
                                    (positions_avg_price self)(symbol \<mapsto>
                                       dec_div (dec_add old_val new_val) (of_int new_pos))\<rparr>
                 in case open_positions self1 symbol of
                      None \<Rightarrow> Inl KeyError
                    | Some d \<Rightarrow>
                        Inr (self1\<lparr>open_positions := (open_positions self1)(symbol \<mapsto>
                               d\<lparr>op_quantity := new_pos,
                                 op_commission := dec_add (op_commission d) comm\<rparr>)\<rparr>))))"

text \<open>\<^verbatim>\<open>update_fill\<close>. The first statement is the cash update
  \<^verbatim>\<open>self.cash -= (price * Decimal(qty) * Decimal(direction)) + comm\<close>: two products, a
  sum and a difference, each rounded to the context.\<close>

definition update_fill ::
  "(int \<Rightarrow> bool) \<Rightarrow> Portfolio \<Rightarrow> FillEvent \<Rightarrow> py_error + Portfolio" where
  "update_fill fromtimestamp_ok self event =
     (let symbol = fill_symbol event; qty = quantity_filled event; price = fill_price event;
          comm = commission event;
          direction = (if fill_direction event = BUY then 1 else -1 :: int);
          pos_change = qty * direction;
          self1 = self\<lparr>cash :=
                    dec_sub (cash self)
                      (dec_add (dec_mul (dec_mul price (of_int qty)) (of_int direction)) comm)\<rparr>;
          current_pos = holdings_get (holdings self1) symbol;
          self2 = self1\<lparr>holdings := holdings_touch (holdings self1) symbol\<rparr>;
          new_pos = current_pos + pos_change;
          branch =
            (if current_pos \<noteq> 0 \<and> new_pos * current_pos \<le> 0
             then close_or_flip fromtimestamp_ok self2 event current_pos new_pos
             else if new_pos \<noteq> 0
             then open_or_add self2 event current_pos pos_change new_pos
             else Inr self2)
      in case branch of
           Inl e \<Rightarrow> Inl e
         | Inr self3 \<Rightarrow>
             (let self4 = self3\<lparr>holdings := dict_set symbol new_pos (holdings self3)\<rparr>;
                  self5 = (if new_pos = 0
                           then self4\<lparr>holdings := dict_del symbol (holdings self4)\<rparr>
                           else self4)
              in update_equity self5 (fill_timestamp event)))"

text \<open>The portfolio processes a sequence of fills; an exception ends the run.\<close>

fun update_fills ::
  "(int \<Rightarrow> bool) \<Rightarrow> Portfolio \<Rightarrow> FillEvent list \<Rightarrow> py_error + Portfolio" where
  "update_fills fromtimestamp_ok self [] = Inr self"
| "update_fills fromtimestamp_ok self (event # events) =
     (case update_fill fromtimestamp_ok self event of
        Inl e \<Rightarrow> Inl e
      | Inr self' \<Rightarrow> update_fills fromtimestamp_ok self' events)"

section \<open>Notions of the claim about cash\<close>

definition dir_sign :: "Side \<Rightarrow> rat" where
  "dir_sign d = (if d = BUY then 1 else -1)"

text \<open>The cash after one fill, as the Decimal context computes it.\<close>

definition cash_after_fill :: "rat \<Rightarrow> FillEvent \<Rightarrow> rat" where
  "cash_after_fill c e =
     dec_sub c (dec_add (dec_mul (dec_mul (fill_price e) (of_int (quantity_filled e)))
                           (dir_sign (fill_direction e)))
                  (commission e))"

text \<open>No operation of the cash updates of a sequence of fills rounds: the products, the
  cost of each fill and the cash after it are representable in the context.\<close>

fun cash_unrounded :: "rat \<Rightarrow> FillEvent list \<Rightarrow> bool" where
  "cash_unrounded c [] = True"
| "cash_unrounded c (e # es) =
     (let v = fill_price e * of_int (quantity_filled e);
          cost = v * dir_sign (fill_direction e) + commission e
      in representable v \<and> representable (v * dir_sign (fill_direction e)) \<and>
         representable cost \<and> representable (c - cost) \<and> cash_unrounded (c - cost) es)"

text \<open>The representation invariant of the portfolio: every symbol with a non-zero holding
  has an average price and an open-position record, and the entry time of every open
  position converts to a \<^verbatim>\<open>datetime\<close>.\<close>

definition pf_inv :: "(int \<Rightarrow> bool) \<Rightarrow> Portfolio \<Rightarrow> bool" where
  "pf_inv fromtimestamp_ok p \<longleftrightarrow> pf_tick_size p \<noteq> 0 \<and> distinct (map fst (holdings p)) \<and>
     (\<forall>s. holdings_get (holdings p) s \<noteq> 0 \<longrightarrow>
        positions_avg_price p s \<noteq> None \<and> open_positions p s \<noteq> None) \<and>
     (\<forall>s d. open_positions p s = Some d \<longrightarrow> fromtimestamp_ok (entry_time d))"

text \<open>The cash of the portfolio that a run of fills ends with, if it ends without an
  exception.\<close>

definition result_cash :: "py_error + Portfolio \<Rightarrow> rat option" where
  "result_cash r = (case r of Inl e \<Rightarrow> None | Inr p \<Rightarrow> Some (cash p))"

section \<open>Order book (core/order_book.py)\<close>

subsection \<open>The sorted dictionary of the sortedcontainers library\<close>

text \<open>
  A \<^verbatim>\<open>SortedDict(key)\<close> iterates over its items in ascending order of \<^verbatim>\<open>key(k)\<close>;
  it is the list of its items in that order. \<^verbatim>\<open>asks\<close> is built with no key function
  (the identity), \<^verbatim>\<open>bids\<close> with \<^verbatim>\<open>lambda k: -k\<close>, so bids iterate from the highest
  price down.

  \<^verbatim>\<open>d[k] = v\<close> replaces the value of a present key and inserts a new key at
  its sorted position; \<^verbatim>\<open>del d[k]\<close> removes the key.
  \<^verbatim>\<open>d.irange(minimum, maximum, inclusive=(False, False))\<close> is the method of the
  underlying sorted-key list: it maps both bounds through the key function and yields, in
  iteration order, the keys \<^verbatim>\<open>k\<close> with
  \<^verbatim>\<open>key(minimum) < key(k) < key(maximum)\<close>, a bound that is \<^verbatim>\<open>None\<close> being absent.
\<close>

fun sd_setitem :: "(rat \<Rightarrow> rat) \<Rightarrow> rat \<Rightarrow> 'v \<Rightarrow> (rat \<times> 'v) list \<Rightarrow> (rat \<times> 'v) list" where
  "sd_setitem key k v [] = [(k, v)]"
| "sd_setitem key k v ((k', v') # xs) =
     (if k = k' then (k, v) # xs
      else if key k < key k' then (k, v) # (k', v') # xs
      else (k', v') # sd_setitem key k v xs)"

definition sd_delitem :: "rat \<Rightarrow> (rat \<times> 'v) list \<Rightarrow> (rat \<times> 'v) list" where
  "sd_delitem k xs = filter (\<lambda>(k', v). k' \<noteq> k) xs"

definition sd_contains :: "rat \<Rightarrow> (rat \<times> 'v) list \<Rightarrow> bool" where
  "sd_contains k xs \<longleftrightarrow> map_of xs k \<noteq> None"

text \<open>\<^verbatim>\<open>next(iter(d), None)\<close>: the first key in iteration order.\<close>

definition sd_first_key :: "(rat \<times> 'v) list \<Rightarrow> rat option" where
  "sd_first_key xs = (case xs of [] \<Rightarrow> None | (k, v) # _ \<Rightarrow> Some k)"

definition sd_irange_exclusive ::
  "(rat \<Rightarrow> rat) \<Rightarrow> rat option \<Rightarrow> rat option \<Rightarrow> (rat \<times> 'v) list \<Rightarrow> (rat \<times> 'v) list" where
  "sd_irange_exclusive key minimum maximum xs =
     filter (\<lambda>(k, v).
        (case minimum of None \<Rightarrow> True | Some lo \<Rightarrow> key lo < key k) \<and>
        (case maximum of None \<Rightarrow> True | Some hi \<Rightarrow> key k < key hi)) xs"

text \<open>A level is the dictionary \<^verbatim>\<open>{'qty': ..., 'num_orders': ...}\<close>.\<close>

record Level =
  qty :: int
  num_orders :: int

definition bid_key :: "rat \<Rightarrow> rat" where
  "bid_key k = - k"

definition ask_key :: "rat \<Rightarrow> rat" where
  "ask_key k = k"

subsection \<open>The book\<close>

record DepthEvent =
  depth_timestamp :: int
  depth_symbol :: string
  depth_side :: Side
  depth_price :: rat
  depth_quantity :: int
  depth_num_orders :: int
  depth_command :: OrderCommand
  depth_flags :: int

record OrderBook =
  ob_symbol :: string
  ob_tick_size :: rat
  bids :: "(rat \<times> Level) list"
  asks :: "(rat \<times> Level) list"
  last_update_time :: int
  best_bid :: "rat option"
  best_ask :: "rat option"

definition refresh_best :: "OrderBook \<Rightarrow> OrderBook" where
  "refresh_best self = self\<lparr>best_bid := sd_first_key (bids self),
                              best_ask := sd_first_key (asks self)\<rparr>"

text \<open>The loop of \<^verbatim>\<open>_initialize_synthetic_data\<close>: the prices are computed from the
  base price and the tick size in the Decimal context.\<close>

fun synthetic_levels :: "rat \<Rightarrow> nat list \<Rightarrow> OrderBook \<Rightarrow> OrderBook" where
  "synthetic_levels base_price [] self = self"
| "synthetic_levels base_price (i # is) self =
     synthetic_levels base_price is
       (self\<lparr>bids := sd_setitem bid_key
                        (dec_sub base_price (dec_mul (of_nat i) (ob_tick_size self)))
                        \<lparr>qty = 100 * (10 - int i), num_orders = 5\<rparr> (bids self),
              asks := sd_setitem ask_key
                        (dec_add (dec_add base_price (ob_tick_size self))
                           (dec_mul (of_nat i) (ob_tick_size self)))
                        \<lparr>qty = 100 * (int i + 1), num_orders = 5\<rparr> (asks self)\<rparr>)"

definition initialize_synthetic_data :: "OrderBook \<Rightarrow> OrderBook" where
  "initialize_synthetic_data self = refresh_best (synthetic_levels 5950 [0..<10] self)"

definition OrderBook_init :: "string \<Rightarrow> rat \<Rightarrow> bool \<Rightarrow> OrderBook" where
  "OrderBook_init symbol tick_size' initialize_synthetic =
     (let self = \<lparr> ob_symbol = symbol, ob_tick_size = tick_size', bids = [], asks = [],
                    last_update_time = 0, best_bid = None, best_ask = None \<rparr>
      in if initialize_synthetic then initialize_synthetic_data self else self)"

text \<open>\<^verbatim>\<open>process_depth_event\<close>. The side of the event selects the ladder: SELL is the bid
  side. The warning about a crossed book is a log line and changes nothing.\<close>

definition depth_update_side ::
  "(rat \<Rightarrow> rat) \<Rightarrow> DepthEvent \<Rightarrow> (rat \<times> Level) list \<Rightarrow> (rat \<times> Level) list" where
  "depth_update_side key event book_side =
     (let price = depth_price event in
      if depth_command event = DELETE \<or> (depth_command event = UPDATE \<and> depth_quantity event \<le> 0)
      then (if sd_contains price book_side then sd_delitem price book_side else book_side)
      else if depth_command event \<in> set [INSERT, UPDATE]
      then (if depth_quantity event > 0
            then sd_setitem key price
                   \<lparr>qty = depth_quantity event, num_orders = depth_num_orders event\<rparr> book_side
            else if sd_contains price book_side then sd_delitem price book_side
            else book_side)
      else book_side)"

definition process_depth_event :: "OrderBook \<Rightarrow> DepthEvent \<Rightarrow> OrderBook" where
  "process_depth_event self event =
     (if depth_symbol event \<noteq> ob_symbol self \<or> depth_timestamp event < last_update_time self
      then self
      else
        (let self1 = self\<lparr>last_update_time := depth_timestamp event\<rparr>;
             self2 = (if depth_side event = SELL
                      then self1\<lparr>bids := depth_update_side bid_key event (bids self1)\<rparr>
                      else self1\<lparr>asks := depth_update_side ask_key event (asks self1)\<rparr>)
         in refresh_best self2))"

text \<open>A Decimal is true when it is not zero, \<^verbatim>\<open>None\<close> is false.\<close>

definition truthy_decimal :: "rat option \<Rightarrow> bool" where
  "truthy_decimal x = (case x of None \<Rightarrow> False | Some d \<Rightarrow> d \<noteq> 0)"

definition bbo_qty :: "rat option \<Rightarrow> (rat \<times> Level) list \<Rightarrow> int" where
  "bbo_qty price book_side =
     (case price of
        None \<Rightarrow> 0
      | Some p \<Rightarrow> (case map_of book_side p of
                     Some level \<Rightarrow> if p \<noteq> 0 then qty level else 0
                   | None \<Rightarrow> 0))"

definition get_bbo :: "OrderBook \<Rightarrow> rat option \<times> int \<times> rat option \<times> int" where
  "get_bbo self =
     (best_bid self, bbo_qty (best_bid self) (bids self),
      best_ask self, bbo_qty (best_ask self) (asks self))"

text \<open>\<^verbatim>\<open>get_level_data\<close> looks the price up on the bids for SELL and on the asks for BUY;
  a price \<^verbatim>\<open>None\<close> is no key of either.\<close>

definition get_level_data :: "OrderBook \<Rightarrow> rat option \<Rightarrow> Side \<Rightarrow> Level option" where
  "get_level_data self price side =
     (let book_side = (if side = SELL then bids self else asks self)
      in case price of None \<Rightarrow> None | Some p \<Rightarrow> map_of book_side p)"

text \<open>\<^verbatim>\<open>estimate_quantity_ahead\<close> starts from \<^verbatim>\<open>Decimal(0)\<close> and adds the quantity of
  each level of the range with \<^verbatim>\<open>+=\<close>: the estimate is a Decimal, every partial sum
  rounded to the context.\<close>

definition add_level_qty :: "rat \<Rightarrow> rat \<times> Level \<Rightarrow> rat" where
  "add_level_qty qty_ahead item = dec_add qty_ahead (of_int (qty (snd item)))"

definition estimate_quantity_ahead :: "OrderBook \<Rightarrow> rat option \<Rightarrow> Side \<Rightarrow> rat" where
  "estimate_quantity_ahead self order_price order_side =
     (case order_side of
        BUY \<Rightarrow> foldl add_level_qty 0 (sd_irange_exclusive bid_key order_price None (bids self))
      | SELL \<Rightarrow> foldl add_level_qty 0 (sd_irange_exclusive ask_key None order_price (asks self)))"

section \<open>Data loader (data/loader.py): depth rows\<close>

text \<open>A row of the depth table, \<^verbatim>\<open>(timestamp, command, flags, num_orders, price, qty)\<close>,
  with columns that parse: rows that fail to parse are skipped by the loader and give no
  event.\<close>

record DepthRow =
  row_timestamp :: int
  row_command :: int
  row_flags :: int
  row_num_orders :: int
  row_price :: rat
  row_qty :: int

text \<open>\<^verbatim>\<open>OrderCommand(int(row[1]))\<close>: the member of the enumeration with that value;
  \<^verbatim>\<open>None\<close> stands for the \<^verbatim>\<open>ValueError\<close> of a value without a member.\<close>

definition OrderCommand_of_value :: "int \<Rightarrow> OrderCommand option" where
  "OrderCommand_of_value v =
     (if v = 3 then Some DELETE else if v = 1 then Some INSERT else if v = 2 then Some UPDATE
      else if v = 4 then Some UNKNOWN_4 else if v = 5 then Some UNKNOWN_5
      else if v = 6 then Some UNKNOWN_6 else if v = 7 then Some UNKNOWN_7 else None)"

definition determine_side_from_flags :: "int \<Rightarrow> Side" where
  "determine_side_from_flags flags = (if flags mod 2 = 1 then SELL else BUY)"

definition create_depth_event_from_row :: "string \<Rightarrow> DepthRow \<Rightarrow> DepthEvent" where
  "create_depth_event_from_row symbol row =
     (let command = (case OrderCommand_of_value (row_command row) of
                       Some c \<Rightarrow> c
                     | None \<Rightarrow> UPDATE)
      in \<lparr> depth_timestamp = row_timestamp row, depth_symbol = symbol,
           depth_side = determine_side_from_flags (row_flags row),
           depth_price = row_price row, depth_quantity = row_qty row,
           depth_num_orders = row_num_orders row, depth_command = command,
           depth_flags = row_flags row \<rparr>)"

text \<open>The reading of claim C6: the quantity resting on the same side at strictly better
  prices, higher bids for a BUY and lower asks for a SELL.\<close>

definition quantity_at_better_prices :: "OrderBook \<Rightarrow> rat \<Rightarrow> Side \<Rightarrow> int" where
  "quantity_at_better_prices self p side =
     (case side of
        BUY \<Rightarrow> (\<Sum>(price, level) \<leftarrow> filter (\<lambda>(price, level). price > p) (bids self). qty level)
      | SELL \<Rightarrow> (\<Sum>(price, level) \<leftarrow> filter (\<lambda>(price, level). price < p) (asks self). qty level))"

section \<open>Execution handler (core/execution.py)\<close>

subsection \<open>Events\<close>

record TradeEvent =
  trade_timestamp :: int
  trade_symbol :: string
  trade_price :: rat
  trade_quantity :: int
  trade_side :: Side

record SignalEvent =
  sig_timestamp :: int
  sig_strategy_id :: string
  sig_symbol :: string
  sig_direction :: Side
  sig_order_type :: OrderType
  sig_quantity :: int
  sig_limit_price :: "rat option"
  sig_stop_price :: "rat option"
  signal_trigger_price :: "rat option"
  signal_stop_price :: "rat option"
  signal_target_price :: "rat option"

record OrderEvent =
  ord_timestamp :: int
  order_id :: string
  ord_strategy_id :: string
  ord_symbol :: string
  quantity :: int
  order_type :: OrderType
  direction :: Side
  limit_price :: "rat option"
  stop_price :: "rat option"
  filled_quantity :: int
  status :: OrderStatus
  linked_stop_price :: "rat option"
  linked_target_price :: "rat option"
  parent_order_id :: "string option"

datatype Event =
    TradeEv TradeEvent
  | DepthEv DepthEvent
  | SignalEv SignalEvent
  | OrderEv OrderEvent
  | FillEv FillEvent

fun event_type :: "Event \<Rightarrow> EventType" where
  "event_type (TradeEv e) = MARKET_TRADE"
| "event_type (DepthEv e) = MARKET_DEPTH"
| "event_type (SignalEv e) = SIGNAL"
| "event_type (OrderEv e) = ORDER"
| "event_type (FillEv e) = FILL"

fun event_timestamp :: "Event \<Rightarrow> int" where
  "event_timestamp (TradeEv e) = trade_timestamp e"
| "event_timestamp (DepthEv e) = depth_timestamp e"
| "event_timestamp (SignalEv e) = sig_timestamp e"
| "event_timestamp (OrderEv e) = ord_timestamp e"
| "event_timestamp (FillEv e) = fill_timestamp e"

subsection \<open>State\<close>

record PendingLimit =
  pl_order :: OrderEvent
  qty_ahead :: rat
  qty_filled :: int

record LinkedExits =
  stop_id :: "string option"
  target_id :: "string option"

text \<open>
  \<^verbatim>\<open>event_queue\<close> is the deque of the constructor's annotation: \<^verbatim>\<open>append\<close> adds at the
  right end. \<^verbatim>\<open>pending_limit_orders\<close> and \<^verbatim>\<open>pending_stop_orders\<close> are iterated by the
  handler and keep their insertion order; \<^verbatim>\<open>submitted_orders\<close> and
  \<^verbatim>\<open>linked_exit_orders\<close> are only looked up. The order book is the object shared with the
  controller.
\<close>

record ExecutionHandler =
  event_queue :: "Event list"
  order_book :: OrderBook
  tick_size :: rat
  latency_data_signal_ns :: int
  latency_signal_order_ns :: int
  commission_per_contract :: rat
  order_counter :: nat
  submitted_orders :: "string \<rightharpoonup> OrderEvent"
  pending_limit_orders :: "(string \<times> PendingLimit) list"
  pending_stop_orders :: "(string \<times> OrderEvent) list"
  linked_exit_orders :: "string \<rightharpoonup> LinkedExits"

definition ExecutionHandler_init ::
  "Event list \<Rightarrow> OrderBook \<Rightarrow> rat \<Rightarrow> int \<Rightarrow> int \<Rightarrow> rat \<Rightarrow> ExecutionHandler" where
  "ExecutionHandler_init queue book tick_size' latency_data_signal latency_signal_order
       commission_per_contract' =
     \<lparr> event_queue = queue, order_book = book, tick_size = tick_size',
       latency_data_signal_ns = latency_data_signal,
       latency_signal_order_ns = latency_signal_order,
       commission_per_contract = commission_per_contract',
       order_counter = 0, submitted_orders = Map.empty, pending_limit_orders = [],
       pending_stop_orders = [], linked_exit_orders = Map.empty \<rparr>"

subsection \<open>Order identifiers\<close>

text \<open>The decimal digits of a number, as \<^verbatim>\<open>str\<close> prints them inside an f-string.\<close>

fun str_of_nat :: "nat \<Rightarrow> string" where
  "str_of_nat n =
     (if n < 10 then [''0123456789'' ! n]
      else str_of_nat (n div 10) @ [''0123456789'' ! (n mod 10)])"

definition str_of_int :: "int \<Rightarrow> string" where
  "str_of_int i = (if i < 0 then ''-'' @ str_of_nat (nat (- i)) else str_of_nat (nat i))"

text \<open>
  \<^verbatim>\<open>_generate_order_id\<close> increments the counter and reads the wall clock
  (\<^verbatim>\<open>time.time_ns()\<close>). The clock is outside the program: \<open>clock n\<close> is the reading
  taken when the counter becomes \<open>n\<close>.
\<close>

definition generate_order_id ::
  "(nat \<Rightarrow> int) \<Rightarrow> ExecutionHandler \<Rightarrow> string \<Rightarrow> string \<times> ExecutionHandler" where
  "generate_order_id clock self prefix =
     (let self1 = self\<lparr>order_counter := order_counter self + 1\<rparr>
      in (prefix @ ''_'' @ str_of_nat (order_counter self1) @ ''_''
            @ str_of_int (clock (order_counter self1)), self1))"

text \<open>A string is true when it is not empty.\<close>

definition truthy_string :: "string option \<Rightarrow> bool" where
  "truthy_string x = (case x of None \<Rightarrow> False | Some s \<Rightarrow> s \<noteq> [])"

subsection \<open>Status updates\<close>

text \<open>
  \<^verbatim>\<open>_update_order_status\<close>: nothing happens for an order id that is not in
  \<^verbatim>\<open>submitted_orders\<close>. The filled quantity of the stored order is set for
  PARTIALLY_FILLED and FILLED; its \<^verbatim>\<open>status\<close> field is never assigned: the status
  travels in the new event only.
\<close>

definition update_order_status ::
  "ExecutionHandler \<Rightarrow> string \<Rightarrow> OrderStatus \<Rightarrow> int \<Rightarrow> int option \<Rightarrow> ExecutionHandler" where
  "update_order_status self oid new_status timestamp filled_qty =
     (case submitted_orders self oid of
        None \<Rightarrow> self
      | Some original_order \<Rightarrow>
          (let current_filled = (case filled_qty of
                                  Some f \<Rightarrow> f
                                | None \<Rightarrow> filled_quantity original_order);
               original_order1 =
                 (if new_status = PARTIALLY_FILLED
                  then original_order\<lparr>filled_quantity := current_filled\<rparr>
                  else if new_status = FILLED
                  then original_order\<lparr>filled_quantity := quantity original_order\<rparr>
                  else original_order);
               self1 = self\<lparr>submitted_orders := (submitted_orders self)(oid \<mapsto> original_order1)\<rparr>;
               status_event =
                 \<lparr> ord_timestamp = timestamp, order_id = oid,
                   ord_strategy_id = ord_strategy_id original_order1,
                   ord_symbol = ord_symbol original_order1,
                   quantity = quantity original_order1,
                   order_type = order_type original_order1,
                   direction = direction original_order1,
                   limit_price = limit_price original_order1,
                   stop_price = stop_price original_order1,
                   filled_quantity = current_filled, status = new_status,
                   linked_stop_price = linked_stop_price original_order1,
                   linked_target_price = linked_target_price original_order1,
                   parent_order_id = parent_order_id original_order1 \<rparr>;
               self2 = self1\<lparr>event_queue := event_queue self1 @ [OrderEv status_event]\<rparr>
           in if new_status \<in> set [FILLED, REJECTED, CANCELLED]
              then self2\<lparr>submitted_orders := (submitted_orders self2)(oid := None)\<rparr>
              else self2))"

definition reject_order :: "ExecutionHandler \<Rightarrow> OrderEvent \<Rightarrow> ExecutionHandler" where
  "reject_order self order =
     update_order_status self (order_id order) REJECTED (ord_timestamp order) None"

subsection \<open>Signals\<close>

definition process_signal ::
  "(nat \<Rightarrow> int) \<Rightarrow> ExecutionHandler \<Rightarrow> SignalEvent \<Rightarrow> ExecutionHandler" where
  "process_signal clock self event =
     (let simulated_arrival_time =
            sig_timestamp event + latency_data_signal_ns self + latency_signal_order_ns self;
          (entry_order_id, self1) = generate_order_id clock self ''ENTRY'';
          entry_order =
            \<lparr> ord_timestamp = simulated_arrival_time, order_id = entry_order_id,
              ord_strategy_id = sig_strategy_id event, ord_symbol = sig_symbol event,
              quantity = sig_quantity event, order_type = sig_order_type event,
              direction = sig_direction event, limit_price = sig_limit_price event,
              stop_price = sig_stop_price event, filled_quantity = 0,
              status = PENDING_SUBMIT, linked_stop_price = signal_stop_price event,
              linked_target_price = signal_target_price event, parent_order_id = None \<rparr>;
          self2 = self1\<lparr>submitted_orders := (submitted_orders self1)(entry_order_id \<mapsto> entry_order),
                        event_queue := event_queue self1 @ [OrderEv entry_order]\<rparr>
      in if truthy_decimal (signal_stop_price event) \<or> truthy_decimal (signal_target_price event)
         then self2\<lparr>linked_exit_orders := (linked_exit_orders self2)(entry_order_id \<mapsto>
                       \<lparr>stop_id = None, target_id = None\<rparr>)\<rparr>
         else self2)"

subsection \<open>Market orders\<close>

text \<open>
  The loop of \<^verbatim>\<open>_execute_market_order\<close> over the snapshot
  \<^verbatim>\<open>list(book.asks.items())\<close> (or of the bids). The level objects of the snapshot are the
  ones the book holds: the quantity of a level changes in the book where it stands, and a
  level that reaches zero is deleted from the book. The last argument is that ladder of the
  book. \<^verbatim>\<open>total_value += Decimal(fill_on_this_level) * price\<close> is a product and a sum in
  the Decimal context.
\<close>

fun walk_book ::
  "(rat \<times> Level) list \<Rightarrow> int \<Rightarrow> int \<Rightarrow> rat \<Rightarrow> (rat \<times> Level) list
     \<Rightarrow> int \<times> rat \<times> (rat \<times> Level) list" where
  "walk_book [] qty_to_fill filled_qty total_value ladder = (filled_qty, total_value, ladder)"
| "walk_book ((price, level_data) # rest) qty_to_fill filled_qty total_value ladder =
     (let available_qty = qty level_data;
          fill_on_this_level = min qty_to_fill available_qty;
          filled_qty1 = filled_qty + fill_on_this_level;
          total_value1 = dec_add total_value (dec_mul (of_int fill_on_this_level) price);
          qty_to_fill1 = qty_to_fill - fill_on_this_level;
          level_data1 = level_data\<lparr>qty := qty level_data - fill_on_this_level\<rparr>;
          ladder1 = dict_mutate price level_data1 ladder;
          ladder2 = (if qty level_data1 \<le> 0 then sd_delitem price ladder1 else ladder1)
      in if qty_to_fill1 = 0 then (filled_qty1, total_value1, ladder2)
         else walk_book rest qty_to_fill1 filled_qty1 total_value1 ladder2)"

text \<open>\<^verbatim>\<open>_execute_market_order\<close>. The average price is the Decimal quotient of the
  total value by the filled quantity, which is positive where the division stands.\<close>

definition execute_market_order :: "ExecutionHandler \<Rightarrow> OrderEvent \<Rightarrow> ExecutionHandler" where
  "execute_market_order self order =
     (let book = order_book self;
          book_side = (if direction order = BUY then asks book else bids book)
      in if book_side = [] then reject_order self order
         else
           (let (filled_qty, total_value, ladder) =
                  walk_book book_side (quantity order) 0 0 book_side;
                book1 = (if direction order = BUY then book\<lparr>asks := ladder\<rparr>
                         else book\<lparr>bids := ladder\<rparr>);
                self1 = self\<lparr>order_book := refresh_best book1\<rparr>
            in if filled_qty > 0 then
                 (let avg_fill_price = dec_div total_value (of_int filled_qty);
                      commission' = dec_mul (commission_per_contract self1) (of_int filled_qty);
                      fill = \<lparr> fill_timestamp = ord_timestamp order,
                               fill_order_id = order_id order,
                               fill_strategy_id = ord_strategy_id order,
                               fill_symbol = ord_symbol order,
                               fill_direction = direction order,
                               quantity_filled = filled_qty, fill_price = avg_fill_price,
                               commission = commission',
                               fill_linked_stop_price = linked_stop_price order,
                               fill_linked_target_price = linked_target_price order \<rparr>;
                      self2 = self1\<lparr>event_queue := event_queue self1 @ [FillEv fill]\<rparr>;
                      final_status = (if filled_qty = quantity order then FILLED
                                      else PARTIALLY_FILLED)
                  in update_order_status self2 (order_id order) final_status
                       (ord_timestamp order) (Some filled_qty))
               else reject_order self1 order))"

subsection \<open>Limit orders\<close>

definition crosses :: "rat option \<Rightarrow> rat option \<Rightarrow> (rat \<Rightarrow> rat \<Rightarrow> bool) \<Rightarrow> bool" where
  "crosses limit bbo cmp =
     (case (limit, bbo) of
        (Some l, Some b) \<Rightarrow> l \<noteq> 0 \<and> b \<noteq> 0 \<and> cmp l b
      | _ \<Rightarrow> False)"

definition handle_limit_order_placement ::
  "ExecutionHandler \<Rightarrow> OrderEvent \<Rightarrow> ExecutionHandler" where
  "handle_limit_order_placement self order =
     (let book = order_book self;
          (bbo_bid, bid_qty, bbo_ask, ask_qty) = get_bbo book;
          immediate_fill =
            (if direction order = BUY \<and> crosses (limit_price order) bbo_ask (\<lambda>l a. l \<ge> a)
             then True
             else if direction order = SELL \<and> crosses (limit_price order) bbo_bid (\<lambda>l b. l \<le> b)
             then True
             else False)
      in if immediate_fill then execute_market_order self order
         else
           (let qty_better = estimate_quantity_ahead book (limit_price order) (direction order);
                book_side_for_order = (if direction order = BUY then SELL else BUY);
                qty_at_level_data = get_level_data book (limit_price order) book_side_for_order;
                qty_at_level = (case qty_at_level_data of Some l \<Rightarrow> qty l | None \<Rightarrow> 0)
            in self\<lparr>pending_limit_orders :=
                      dict_set (order_id order)
                        \<lparr>pl_order = order, qty_ahead = dec_add qty_better (of_int qty_at_level),
                          qty_filled = 0\<rparr>
                        (pending_limit_orders self)\<rparr>))"

text \<open>
  \<^verbatim>\<open>_cancel_linked_stop\<close> looks the filled target up in \<^verbatim>\<open>submitted_orders\<close> to
  find its parent.
\<close>

definition cancel_linked_stop :: "ExecutionHandler \<Rightarrow> string \<Rightarrow> int \<Rightarrow> ExecutionHandler" where
  "cancel_linked_stop self filled_target_order_id timestamp =
     (let target_order = submitted_orders self filled_target_order_id;
          entry_id = (case target_order of Some t \<Rightarrow> parent_order_id t | None \<Rightarrow> None)
      in case entry_id of
           None \<Rightarrow> self
         | Some eid \<Rightarrow>
             (if eid = [] then self
              else case linked_exit_orders self eid of
                     None \<Rightarrow> self
                   | Some exits \<Rightarrow>
                       (case stop_id exits of
                          None \<Rightarrow> self
                        | Some sid \<Rightarrow>
                            if sid \<noteq> [] \<and> dict_get (pending_stop_orders self) sid \<noteq> None
                            then
                              (let self1 = self\<lparr>pending_stop_orders :=
                                                   dict_del sid (pending_stop_orders self)\<rparr>;
                                   self2 = update_order_status self1 sid CANCELLED timestamp None
                               in self2\<lparr>linked_exit_orders :=
                                          (linked_exit_orders self2)(eid := None)\<rparr>)
                            else self)))"

definition cancel_linked_target :: "ExecutionHandler \<Rightarrow> string \<Rightarrow> int \<Rightarrow> ExecutionHandler" where
  "cancel_linked_target self triggered_stop_order_id timestamp =
     (let stop_order = submitted_orders self triggered_stop_order_id;
          entry_id = (case stop_order of Some t \<Rightarrow> parent_order_id t | None \<Rightarrow> None)
      in case entry_id of
           None \<Rightarrow> self
         | Some eid \<Rightarrow>
             (if eid = [] then self
              else case linked_exit_orders self eid of
                     None \<Rightarrow> self
                   | Some exits \<Rightarrow>
                       (case target_id exits of
                          None \<Rightarrow> self
                        | Some tid \<Rightarrow>
                            if tid \<noteq> [] \<and> dict_get (pending_limit_orders self) tid \<noteq> None
                            then
                              (let self1 = self\<lparr>pending_limit_orders :=
                                                   dict_del tid (pending_limit_orders self)\<rparr>;
                                   self2 = update_order_status self1 tid CANCELLED timestamp None
                               in self2\<lparr>linked_exit_orders :=
                                          (linked_exit_orders self2)(eid := None)\<rparr>)
                            else self)))"

text \<open>\<^verbatim>\<open>int(d)\<close> of a Decimal truncates towards zero.\<close>

definition int_of_decimal :: "rat \<Rightarrow> int" where
  "int_of_decimal x = (if 0 \<le> x then \<lfloor>x\<rfloor> else \<lceil>x\<rceil>)"

text \<open>
  The body of the loop of \<^verbatim>\<open>check_limit_fills\<close> for one item
  \<^verbatim>\<open>(order_id, data)\<close> of the snapshot. \<^verbatim>\<open>Decimal('inf')\<close> is \<open>None\<close>:
  \<^verbatim>\<open>max(Decimal(0), inf - qty_ahead)\<close> is infinite, \<^verbatim>\<open>min(inf, qty_rem)\<close> is
  \<^verbatim>\<open>qty_rem\<close>, and \<^verbatim>\<open>max(Decimal(0), qty_ahead - inf)\<close> is zero. The two
  differences with a finite \<^verbatim>\<open>trade_consumes\<close> are Decimal subtractions. Comparing the
  trade price with a limit price \<^verbatim>\<open>None\<close> raises \<^verbatim>\<open>TypeError\<close>; the comparison is
  reached when direction and aggressor side fit.
\<close>

definition limit_fill_step ::
  "ExecutionHandler \<Rightarrow> TradeEvent \<Rightarrow> string \<times> PendingLimit \<Rightarrow> py_error + ExecutionHandler" where
  "limit_fill_step self trade_event item =
     (let oid = fst item; data = snd item; order = pl_order data;
          trade_price' = trade_price trade_event; trade_qty = trade_quantity trade_event;
          trade_side' = trade_side trade_event
      in if ord_symbol order \<noteq> trade_symbol trade_event then Inr self
         else if (direction order = BUY \<and> trade_side' = SELL)
                 \<or> (direction order = SELL \<and> trade_side' = BUY)
         then
           (case limit_price order of
              None \<Rightarrow> Inl TypeError
            | Some limit \<Rightarrow>
                (let can_fill_buy = (direction order = BUY \<and> trade_side' = SELL
                                      \<and> trade_price' \<le> limit);
                     can_fill_sell = (direction order = SELL \<and> trade_side' = BUY
                                       \<and> trade_price' \<ge> limit)
                 in if can_fill_buy \<or> can_fill_sell then
                      (let qty_ahead' = qty_ahead data;
                           qty_rem = quantity order - qty_filled data;
                           trade_consumes = (if trade_price' = limit
                                             then Some (of_int trade_qty :: rat) else None);
                           fill_after_queue = (case trade_consumes of
                                                 Some c \<Rightarrow> Some (max 0 (dec_sub c qty_ahead'))
                                               | None \<Rightarrow> None);
                           fill_qty = (case fill_after_queue of
                                         Some f \<Rightarrow> int_of_decimal (min f (of_int qty_rem))
                                       | None \<Rightarrow> qty_rem);
                           data1 = data\<lparr>qty_ahead := (case trade_consumes of
                                                        Some c \<Rightarrow> max 0 (dec_sub qty_ahead' c)
                                                      | None \<Rightarrow> 0)\<rparr>;
                           self1 = self\<lparr>pending_limit_orders :=
                                          dict_mutate oid data1 (pending_limit_orders self)\<rparr>
                       in if fill_qty > 0 then
                            (let data2 = data1\<lparr>qty_filled := qty_filled data1 + fill_qty\<rparr>;
                                 self2 = self1\<lparr>pending_limit_orders :=
                                                dict_mutate oid data2 (pending_limit_orders self1)\<rparr>;
                                 commission' = dec_mul (commission_per_contract self2) (of_int fill_qty);
                                 fill = \<lparr> fill_timestamp = trade_timestamp trade_event,
                                          fill_order_id = oid,
                                          fill_strategy_id = ord_strategy_id order,
                                          fill_symbol = ord_symbol order,
                                          fill_direction = direction order,
                                          quantity_filled = fill_qty, fill_price = limit,
                                          commission = commission',
                                          fill_linked_stop_price = None,
                                          fill_linked_target_price = None \<rparr>;
                                 self3 = self2\<lparr>event_queue := event_queue self2 @ [FillEv fill]\<rparr>
                             in if qty_filled data2 \<ge> quantity order then
                                  (let self4 = self3\<lparr>pending_limit_orders :=
                                                  dict_del oid (pending_limit_orders self3)\<rparr>;
                                       self5 = update_order_status self4 oid FILLED
                                                 (trade_timestamp trade_event)
                                                 (Some (qty_filled data2))
                                   in Inr (cancel_linked_stop self5 oid
                                             (trade_timestamp trade_event)))
                                else
                                  Inr (update_order_status self3 oid PARTIALLY_FILLED
                                         (trade_timestamp trade_event)
                                         (Some (qty_filled data2))))
                          else Inr self1)
                    else Inr self))
         else Inr self)"

fun limit_fill_loop ::
  "ExecutionHandler \<Rightarrow> TradeEvent \<Rightarrow> (string \<times> PendingLimit) list
     \<Rightarrow> py_error + ExecutionHandler" where
  "limit_fill_loop self trade_event [] = Inr self"
| "limit_fill_loop self trade_event (item # items) =
     (case limit_fill_step self trade_event item of
        Inl e \<Rightarrow> Inl e
      | Inr self' \<Rightarrow> limit_fill_loop self' trade_event items)"

definition check_limit_fills ::
  "ExecutionHandler \<Rightarrow> TradeEvent \<Rightarrow> py_error + ExecutionHandler" where
  "check_limit_fills self trade_event =
     (if pending_limit_orders self = [] then Inr self
      else limit_fill_loop self trade_event (pending_limit_orders self))"

subsection \<open>Stop orders\<close>

definition handle_stop_order_placement ::
  "ExecutionHandler \<Rightarrow> OrderEvent \<Rightarrow> ExecutionHandler" where
  "handle_stop_order_placement self order =
     (case stop_price order of
        None \<Rightarrow> reject_order self order
      | Some _ \<Rightarrow> self\<lparr>pending_stop_orders :=
                       dict_set (order_id order) order (pending_stop_orders self)\<rparr>)"

text \<open>The body of the loop of \<^verbatim>\<open>check_stop_triggers\<close>. The stored stop order and the
  order in \<^verbatim>\<open>submitted_orders\<close> are one object in the source; no status update assigns
  the filled quantity of a stop order, so the stored copy is read here.\<close>

definition stop_trigger_step ::
  "ExecutionHandler \<Rightarrow> TradeEvent \<Rightarrow> string \<times> OrderEvent \<Rightarrow> py_error + ExecutionHandler" where
  "stop_trigger_step self trade_event item =
     (let oid = fst item; order = snd item
      in if ord_symbol order \<noteq> trade_symbol trade_event then Inr self
         else
           (case stop_price order of
              None \<Rightarrow> Inl TypeError
            | Some stop \<Rightarrow>
                (let triggered =
                       (if direction order = SELL \<and> trade_price trade_event \<le> stop then True
                        else if direction order = BUY \<and> trade_price trade_event \<ge> stop then True
                        else False)
                 in if triggered then
                      (let self1 = self\<lparr>pending_stop_orders :=
                                          dict_del oid (pending_stop_orders self)\<rparr>;
                           self2 = update_order_status self1 oid TRIGGERED
                                     (trade_timestamp trade_event) None;
                           self3 = cancel_linked_target self2 oid (trade_timestamp trade_event);
                           market_order =
                             \<lparr> ord_timestamp = trade_timestamp trade_event
                                                + latency_signal_order_ns self3,
                               order_id = oid @ ''_MKT'',
                               ord_strategy_id = ord_strategy_id order,
                               ord_symbol = ord_symbol order,
                               quantity = quantity order - filled_quantity order,
                               order_type = MARKET, direction = direction order,
                               limit_price = None, stop_price = None, filled_quantity = 0,
                               status = PENDING_SUBMIT, linked_stop_price = None,
                               linked_target_price = None, parent_order_id = Some oid \<rparr>
                       in if quantity market_order > 0
                          then Inr (self3\<lparr>submitted_orders :=
                                            (submitted_orders self3)(order_id market_order
                                               \<mapsto> market_order),
                                          event_queue := event_queue self3 @ [OrderEv market_order]\<rparr>)
                          else Inr self3)
                    else Inr self)))"

fun stop_trigger_loop ::
  "ExecutionHandler \<Rightarrow> TradeEvent \<Rightarrow> (string \<times> OrderEvent) list
     \<Rightarrow> py_error + ExecutionHandler" where
  "stop_trigger_loop self trade_event [] = Inr self"
| "stop_trigger_loop self trade_event (item # items) =
     (case stop_trigger_step self trade_event item of
        Inl e \<Rightarrow> Inl e
      | Inr self' \<Rightarrow> stop_trigger_loop self' trade_event items)"

definition check_stop_triggers ::
  "ExecutionHandler \<Rightarrow> TradeEvent \<Rightarrow> py_error + ExecutionHandler" where
  "check_stop_triggers self trade_event =
     (if pending_stop_orders self = [] then Inr self
      else stop_trigger_loop self trade_event (pending_stop_orders self))"

subsection \<open>Order execution\<close>

definition execute_order :: "ExecutionHandler \<Rightarrow> OrderEvent \<Rightarrow> ExecutionHandler" where
  "execute_order self order_event =
     (let self1 = update_order_status self (order_id order_event) ACCEPTED
                    (ord_timestamp order_event) None
      in case order_type order_event of
           MARKET \<Rightarrow> execute_market_order self1 order_event
         | LIMIT \<Rightarrow> handle_limit_order_placement self1 order_event
         | STOP_MARKET \<Rightarrow> handle_stop_order_placement self1 order_event)"

subsection \<open>Linked exits\<close>

definition exit_order ::
  "ExecutionHandler \<Rightarrow> FillEvent \<Rightarrow> string \<Rightarrow> string \<Rightarrow> OrderType \<Rightarrow> rat option \<Rightarrow> rat option
     \<Rightarrow> OrderEvent" where
  "exit_order self entry_fill_event entry_order_id new_id exit_type limit stop =
     \<lparr> ord_timestamp = fill_timestamp entry_fill_event + latency_signal_order_ns self,
       order_id = new_id,
       ord_strategy_id = fill_strategy_id entry_fill_event,
       ord_symbol = fill_symbol entry_fill_event,
       quantity = quantity_filled entry_fill_event,
       order_type = exit_type,
       direction = (if fill_direction entry_fill_event = BUY then SELL else BUY),
       limit_price = limit, stop_price = stop, filled_quantity = 0,
       status = PENDING_SUBMIT, linked_stop_price = None, linked_target_price = None,
       parent_order_id = Some entry_order_id \<rparr>"

definition activate_linked_exits ::
  "(nat \<Rightarrow> int) \<Rightarrow> ExecutionHandler \<Rightarrow> string \<Rightarrow> FillEvent \<Rightarrow> ExecutionHandler" where
  "activate_linked_exits clock self entry_order_id entry_fill_event =
     (case linked_exit_orders self entry_order_id of
        None \<Rightarrow> self
      | Some exits \<Rightarrow>
          (let (exits1, self1) =
                 (if truthy_decimal (fill_linked_stop_price entry_fill_event)
                     \<and> \<not> truthy_string (stop_id exits)
                  then
                    (let (new_stop_id, s1) = generate_order_id clock self ''STOP'';
                         exits' = exits\<lparr>stop_id := Some new_stop_id\<rparr>;
                         stop_order = exit_order s1 entry_fill_event entry_order_id new_stop_id
                                        STOP_MARKET None
                                        (fill_linked_stop_price entry_fill_event)
                     in (exits',
                         s1\<lparr>linked_exit_orders := (linked_exit_orders s1)(entry_order_id \<mapsto> exits'),
                            submitted_orders := (submitted_orders s1)(new_stop_id \<mapsto> stop_order),
                            event_queue := event_queue s1 @ [OrderEv stop_order]\<rparr>))
                  else (exits, self))
           in if truthy_decimal (fill_linked_target_price entry_fill_event)
                 \<and> \<not> truthy_string (target_id exits1)
              then
                (let (new_target_id, s2) = generate_order_id clock self1 ''TARGET'';
                     exits'' = exits1\<lparr>target_id := Some new_target_id\<rparr>;
                     target_order = exit_order s2 entry_fill_event entry_order_id new_target_id
                                      LIMIT (fill_linked_target_price entry_fill_event) None
                 in s2\<lparr>linked_exit_orders := (linked_exit_orders s2)(entry_order_id \<mapsto> exits''),
                        submitted_orders := (submitted_orders s2)(new_target_id \<mapsto> target_order),
                        event_queue := event_queue s2 @ [OrderEv target_order]\<rparr>)
              else self1))"

section \<open>Notions of the claims about the execution handler\<close>

text \<open>The ladder a market order walks: the asks for a BUY, the bids for a SELL.\<close>

definition opposite_side :: "OrderBook \<Rightarrow> Side \<Rightarrow> (rat \<times> Level) list" where
  "opposite_side book d = (if d = BUY then asks book else bids book)"

text \<open>The quantity resting at a price of a ladder, zero when there is no level.\<close>

definition level_qty_at :: "(rat \<times> Level) list \<Rightarrow> rat \<Rightarrow> int" where
  "level_qty_at ladder p = (case map_of ladder p of None \<Rightarrow> 0 | Some l \<Rightarrow> qty l)"

text \<open>What an execution consumed at each level of the ladder it found: the quantity of the
  level before minus the quantity after.\<close>

definition consumed_levels :: "(rat \<times> Level) list \<Rightarrow> (rat \<times> Level) list \<Rightarrow> (rat \<times> int) list" where
  "consumed_levels before after = map (\<lambda>(p, l). (p, qty l - level_qty_at after p)) before"

definition consumed_quantity :: "(rat \<times> int) list \<Rightarrow> int" where
  "consumed_quantity cs = (\<Sum>(p, c) \<leftarrow> cs. c)"

definition weighted_average_price :: "(rat \<times> int) list \<Rightarrow> rat" where
  "weighted_average_price cs = (\<Sum>(p, c) \<leftarrow> cs. of_int c * p) / of_int (consumed_quantity cs)"

definition total_liquidity :: "(rat \<times> Level) list \<Rightarrow> int" where
  "total_liquidity ladder = (\<Sum>(p, l) \<leftarrow> ladder. qty l)"

text \<open>Consumption from the first level on: each level gives what is still wanted, up to
  its quantity.\<close>

fun greedy_fill :: "(rat \<times> Level) list \<Rightarrow> int \<Rightarrow> (rat \<times> int) list" where
  "greedy_fill [] q = []"
| "greedy_fill ((p, l) # xs) q = (p, min q (qty l)) # greedy_fill xs (q - min q (qty l))"

text \<open>The book invariant of the specification: every level holds a positive quantity, and
  a ladder has one level per price.\<close>

definition ladder_ok :: "(rat \<times> Level) list \<Rightarrow> bool" where
  "ladder_ok ladder \<longleftrightarrow> distinct (map fst ladder) \<and> list_all (\<lambda>(p, l). 0 < qty l) ladder"

text \<open>The ladder after a walk that consumed \<open>cs\<close>, as a map from prices to levels: a level
  keeps its place with the quantity that is left, and a level with nothing left is gone.\<close>

definition ladder_after :: "(rat \<times> int) list \<Rightarrow> (rat \<times> Level) list \<Rightarrow> rat \<Rightarrow> Level option" where
  "ladder_after cs ladder p =
     (case map_of cs p of
        None \<Rightarrow> map_of ladder p
      | Some c \<Rightarrow> (case map_of ladder p of
                    None \<Rightarrow> None
                  | Some l \<Rightarrow> if qty l - c \<le> 0 then None else Some (l\<lparr>qty := qty l - c\<rparr>)))"

definition qty_opt :: "Level option \<Rightarrow> int" where
  "qty_opt x = (case x of None \<Rightarrow> 0 | Some l \<Rightarrow> qty l)"

text \<open>The value of the consumed quantities as the Decimal context accumulates it: level by
  level, over the levels that gave something, each product and each partial sum rounded.
  The average price is the Decimal quotient of this value by the consumed quantity.\<close>

definition add_level_value :: "rat \<Rightarrow> rat \<times> int \<Rightarrow> rat" where
  "add_level_value total_value item = dec_add total_value (dec_mul (of_int (snd item)) (fst item))"

definition decimal_total_value :: "(rat \<times> int) list \<Rightarrow> rat" where
  "decimal_total_value cs = foldl add_level_value 0 (filter (\<lambda>(p, c). c \<noteq> 0) cs)"

definition decimal_average_price :: "(rat \<times> int) list \<Rightarrow> rat" where
  "decimal_average_price cs = dec_div (decimal_total_value cs) (of_int (consumed_quantity cs))"

text \<open>The fills and the order statuses among the events of a queue, in their order.\<close>

fun fills_of :: "Event list \<Rightarrow> FillEvent list" where
  "fills_of [] = []"
| "fills_of (FillEv f # es) = f # fills_of es"
| "fills_of (e # es) = fills_of es"

fun statuses_of :: "Event list \<Rightarrow> (string \<times> OrderStatus) list" where
  "statuses_of [] = []"
| "statuses_of (OrderEv ord # es) = (order_id ord, status ord) # statuses_of es"
| "statuses_of (e # es) = statuses_of es"

text \<open>The status events that \<^verbatim>\<open>_update_order_status\<close> emits for an order: one when
  the order is in \<^verbatim>\<open>submitted_orders\<close>, none otherwise.\<close>

definition status_events :: "ExecutionHandler \<Rightarrow> string \<Rightarrow> OrderEvent \<Rightarrow> Event list" where
  "status_events self oid st = (if submitted_orders self oid = None then [] else [OrderEv st])"

section \<open>Backtest controller (backtest.py)\<close>

subsection \<open>The heap of the controller and the merged stream\<close>

text \<open>
  The controller keeps \<^verbatim>\<open>event_queue\<close> as a list that \<^verbatim>\<open>heapq.heappush\<close> maintains as
  a binary heap. The comparison of two events is the \<^verbatim>\<open><\<close> of the event classes, which
  domain/events.py declares; it is the parameter \<open>lt\<close> of the functions below.
  \<^verbatim>\<open>heappush\<close> appends the item and sifts it up (\<^verbatim>\<open>_siftdown(heap, 0, len(heap) - 1)\<close>
  in the standard library).
\<close>

function siftdown :: "('a \<Rightarrow> 'a \<Rightarrow> bool) \<Rightarrow> 'a list \<Rightarrow> 'a \<Rightarrow> nat \<Rightarrow> nat \<Rightarrow> 'a list" where
  "siftdown lt heap newitem startpos pos =
     (if pos > startpos then
        (let parentpos = (pos - 1) div 2;
             parent = heap ! parentpos
         in if lt newitem parent
            then siftdown lt (heap[pos := parent]) newitem startpos parentpos
            else heap[pos := newitem])
      else heap[pos := newitem])"
  by pat_completeness auto
termination
  by (relation "measure (\<lambda>(lt, heap, newitem, startpos, pos). pos)") auto

definition heappush :: "('a \<Rightarrow> 'a \<Rightarrow> bool) \<Rightarrow> 'a list \<Rightarrow> 'a \<Rightarrow> 'a list" where
  "heappush lt heap item = siftdown lt (heap @ [item]) item 0 (length heap)"

text \<open>
  \<^verbatim>\<open>heapq.merge(a, b)\<close> of two iterables yields, at each step, the smaller of the two
  heads; its heap entries are \<^verbatim>\<open>[value, order, next]\<close>, so the head of the first
  iterable wins unless the head of the second is smaller. An exhausted iterable is dropped
  and the other one is yielded as it is. Nothing sorts the iterables: \<^verbatim>\<open>merge\<close> reads
  each of them from front to back.
\<close>

fun heapq_merge :: "('a \<Rightarrow> 'a \<Rightarrow> bool) \<Rightarrow> 'a list \<Rightarrow> 'a list \<Rightarrow> 'a list" where
  "heapq_merge lt [] ys = ys"
| "heapq_merge lt xs [] = xs"
| "heapq_merge lt (x # xs) (y # ys) =
     (if lt y x then y # heapq_merge lt (x # xs) ys
      else x # heapq_merge lt xs (y # ys))"

subsection \<open>Strategy\<close>

text \<open>
  The three abstract methods of \<^verbatim>\<open>Strategy\<close> (strategy/base.py), over a strategy state of
  any type. A handler may raise.
\<close>

record 's StrategyHandlers =
  on_market_data :: "'s \<Rightarrow> TradeEvent \<Rightarrow> py_error + 's"
  on_fill :: "'s \<Rightarrow> FillEvent \<Rightarrow> py_error + 's"
  on_order_status :: "'s \<Rightarrow> OrderEvent \<Rightarrow> py_error + 's"

text \<open>The position bookkeeping of \<^verbatim>\<open>FootprintDiagonalRatioStrategy\<close>
  (strategy/footprint_diagonal.py): \<^verbatim>\<open>on_fill\<close> and \<^verbatim>\<open>on_order_status\<close>.\<close>

record StrategyState =
  strategy_id :: string
  active_order_id :: "string option"
  current_position :: int

definition footprint_on_fill :: "StrategyState \<Rightarrow> FillEvent \<Rightarrow> py_error + StrategyState" where
  "footprint_on_fill self event =
     (if fill_strategy_id event \<noteq> strategy_id self then Inr self
      else
        (let direction_multiplier = (if fill_direction event = BUY then 1 else -1 :: int);
             self1 = self\<lparr>current_position :=
                           current_position self + quantity_filled event * direction_multiplier\<rparr>
         in if current_position self1 = 0 then Inr (self1\<lparr>active_order_id := None\<rparr>)
            else Inr self1))"

definition footprint_on_order_status ::
  "StrategyState \<Rightarrow> OrderEvent \<Rightarrow> py_error + StrategyState" where
  "footprint_on_order_status self event =
     (if ord_strategy_id event \<noteq> strategy_id self then Inr self
      else if status event \<in> set [FILLED, REJECTED, CANCELLED]
      then (if \<not> truthy_string (parent_order_id event)
            then Inr (self\<lparr>active_order_id := None\<rparr>)
            else Inr self)
      else Inr self)"

subsection \<open>The run loop\<close>

record 's Controller =
  ctl_event_queue :: "Event list"
  current_time :: int
  portfolio :: Portfolio
  execution_handler :: ExecutionHandler
  strategy :: 's


definition update_market_price :: "Portfolio \<Rightarrow> TradeEvent \<Rightarrow> Portfolio" where
  "update_market_price self event =
     self\<lparr>last_market_price := (last_market_price self)(trade_symbol event \<mapsto> trade_price event)\<rparr>"

text \<open>
  The body of the loop of \<^verbatim>\<open>run\<close> after the bookkeeping of time and count: the dispatch
  on the type of the event. \<^verbatim>\<open>Portfolio.on_order_status\<close> only logs. The order book is
  the object that the execution handler holds.
\<close>

definition dispatch ::
  "'s StrategyHandlers \<Rightarrow> (nat \<Rightarrow> int) \<Rightarrow> (int \<Rightarrow> bool) \<Rightarrow> 's Controller \<Rightarrow> Event
     \<Rightarrow> py_error + 's Controller" where
  "dispatch handlers clock fromtimestamp_ok self event =
     (case event of
        SignalEv e \<Rightarrow>
          Inr (self\<lparr>execution_handler := process_signal clock (execution_handler self) e\<rparr>)
      | OrderEv e \<Rightarrow>
          (if status e = PENDING_SUBMIT
           then Inr (self\<lparr>execution_handler := execute_order (execution_handler self) e\<rparr>)
           else (case on_order_status handlers (strategy self) e of
                   Inl err \<Rightarrow> Inl err
                 | Inr st \<Rightarrow> Inr (self\<lparr>strategy := st\<rparr>)))
      | FillEv e \<Rightarrow>
          (case update_fill fromtimestamp_ok (portfolio self) e of
             Inl err \<Rightarrow> Inl err
           | Inr pf \<Rightarrow>
               (case on_fill handlers (strategy self) e of
                  Inl err \<Rightarrow> Inl err
                | Inr st \<Rightarrow> Inr (self\<lparr>portfolio := pf, strategy := st\<rparr>)))
      | DepthEv e \<Rightarrow>
          Inr (self\<lparr>execution_handler := (execution_handler self)
                 \<lparr>order_book := process_depth_event (order_book (execution_handler self)) e\<rparr>\<rparr>)
      | TradeEv e \<Rightarrow>
          (let self1 = self\<lparr>portfolio := update_market_price (portfolio self) e\<rparr>
           in case on_market_data handlers (strategy self1) e of
                Inl err \<Rightarrow> Inl err
              | Inr st \<Rightarrow>
                  (case check_limit_fills (execution_handler self1) e of
                     Inl err \<Rightarrow> Inl err
                   | Inr eh1 \<Rightarrow>
                       (case check_stop_triggers eh1 e of
                          Inl err \<Rightarrow> Inl err
                        | Inr eh2 \<Rightarrow>
                            Inr (self1\<lparr>strategy := st, execution_handler := eh2\<rparr>)))))"

text \<open>
  The loop over the merged stream. It returns the events it has dispatched, in the order
  of their dispatch, and the controller it ends with or the exception that ended it.
  \<^verbatim>\<open>max_events\<close> bounds the number of dispatched events when it is set and not zero.
\<close>

fun run_loop ::
  "'s StrategyHandlers \<Rightarrow> (nat \<Rightarrow> int) \<Rightarrow> (int \<Rightarrow> bool) \<Rightarrow> int option \<Rightarrow> 's Controller \<Rightarrow> int
     \<Rightarrow> Event list \<Rightarrow> Event list \<times> (py_error + 's Controller)" where
  "run_loop handlers clock fromtimestamp_ok max_events self count [] = ([], Inr self)"
| "run_loop handlers clock fromtimestamp_ok max_events self count (event # events) =
     (let self1 = self\<lparr>current_time := event_timestamp event\<rparr>;
          count1 = count + 1
      in if (case max_events of None \<Rightarrow> False | Some m \<Rightarrow> m \<noteq> 0 \<and> count1 > m)
         then ([], Inr self1)
         else (case dispatch handlers clock fromtimestamp_ok self1 event of
                 Inl err \<Rightarrow> ([event], Inl err)
               | Inr self2 \<Rightarrow>
                   (case run_loop handlers clock fromtimestamp_ok max_events self2 count1 events of
                      (dispatched, result) \<Rightarrow> (event # dispatched, result))))"

subsection \<open>Configuration and construction\<close>




text \<open>
  \<^verbatim>\<open>run\<close> merges the list \<^verbatim>\<open>self.event_queue\<close>, as it stands, with the market stream,
  once, before the loop; the events that the handlers append to their queues while the
  loop runs are not merged in again. With a test scenario the market stream is empty.
  After the loop the equity is updated at the time of the last event.
\<close>

definition merged_stream :: "(Event \<Rightarrow> Event \<Rightarrow> bool) \<Rightarrow> 's Controller \<Rightarrow> Event list \<Rightarrow> Event list" where
  "merged_stream lt self market_stream = heapq_merge lt (ctl_event_queue self) market_stream"

definition run_merged ::
  "'s StrategyHandlers \<Rightarrow> (nat \<Rightarrow> int) \<Rightarrow> (int \<Rightarrow> bool) \<Rightarrow> (Event \<Rightarrow> Event \<Rightarrow> bool) \<Rightarrow> int option
     \<Rightarrow> 's Controller \<Rightarrow> Event list \<Rightarrow> Event list \<times> (py_error + 's Controller)" where
  "run_merged handlers clock fromtimestamp_ok lt max_events self market_stream =
     (case run_loop handlers clock fromtimestamp_ok max_events self 0
             (merged_stream lt self market_stream) of
        (dispatched, Inl err) \<Rightarrow> (dispatched, Inl err)
      | (dispatched, Inr self1) \<Rightarrow>
          (case update_equity (portfolio self1) (current_time self1) of
             Inl err \<Rightarrow> (dispatched, Inl err)
           | Inr pf \<Rightarrow> (dispatched, Inr (self1\<lparr>portfolio := pf\<rparr>))))"



definition timestamps_ascending :: "Event list \<Rightarrow> bool" where
  "timestamps_ascending events = sorted (map event_timestamp events)"

text \<open>An order of events that agrees with their timestamps.\<close>

definition orders_by_timestamp :: "(Event \<Rightarrow> Event \<Rightarrow> bool) \<Rightarrow> bool" where
  "orders_by_timestamp lt \<longleftrightarrow>
     (\<forall>a b. lt a b \<longrightarrow> event_timestamp a \<le> event_timestamp b) \<and>
     (\<forall>a b. event_timestamp a < event_timestamp b \<longrightarrow> lt a b)"

definition timestamp_lt :: "Event \<Rightarrow> Event \<Rightarrow> bool" where
  "timestamp_lt a b \<longleftrightarrow> event_timestamp a < event_timestamp b"

section \<open>A worked scenario\<close>

text \<open>
  The synthetic book of the test scenarios (tick size 0.25, commission 2.50, latencies of
  100 and 500 microseconds), a BUY signal at timestamp 2 with a stop at 5947.50 and a
  target at 5956.625, and the entry order that \<^verbatim>\<open>process_signal\<close> makes of it. The clock
  reads 42 whenever an order id is generated, and the times from 1970 to the year 9999
  convert to a \<^verbatim>\<open>datetime\<close>.
\<close>

definition example_fromtimestamp_ok :: "int \<Rightarrow> bool" where
  "example_fromtimestamp_ok ns \<longleftrightarrow> 0 \<le> ns \<and> ns < 253402300800000000000"

definition example_clock :: "nat \<Rightarrow> int" where
  "example_clock n = 42"

definition example_book :: OrderBook where
  "example_book = OrderBook_init ''ES'' (1/4) True"

definition example_handler :: "bool \<Rightarrow> ExecutionHandler" where
  "example_handler synthetic =
     ExecutionHandler_init []
       (if synthetic then example_book else OrderBook_init ''ES'' (1/4) False)
       (1/4) 100000 500000 (5/2)"

definition example_signal :: "OrderType \<Rightarrow> int \<Rightarrow> SignalEvent" where
  "example_signal type n =
     \<lparr> sig_timestamp = 2, sig_strategy_id = ''FootprintDiagonalRatioStrategy_ES'',
       sig_symbol = ''ES'', sig_direction = BUY, sig_order_type = type, sig_quantity = n,
       sig_limit_price = (if type = LIMIT then Some (23799/4) else None),
       sig_stop_price = None,
       signal_trigger_price = Some (23801/4), signal_stop_price = Some (11895/2),
       signal_target_price = Some (47653/8) \<rparr>"

definition example_entry :: "OrderType \<Rightarrow> int \<Rightarrow> OrderEvent" where
  "example_entry type n =
     \<lparr> ord_timestamp = 600002, order_id = ''ENTRY_1_42'',
       ord_strategy_id = ''FootprintDiagonalRatioStrategy_ES'', ord_symbol = ''ES'',
       quantity = n, order_type = type, direction = BUY,
       limit_price = (if type = LIMIT then Some (23799/4) else None),
       stop_price = None, filled_quantity = 0, status = PENDING_SUBMIT,
       linked_stop_price = Some (11895/2), linked_target_price = Some (47653/8),
       parent_order_id = None \<rparr>"

definition example_submitted :: "bool \<Rightarrow> OrderType \<Rightarrow> int \<Rightarrow> ExecutionHandler" where
  "example_submitted synthetic type n =
     process_signal example_clock (example_handler synthetic) (example_signal type n)"


definition example_strategy :: StrategyState where
  "example_strategy =
     \<lparr> strategy_id = ''FootprintDiagonalRatioStrategy_ES'', active_order_id = None,
       current_position = 0 \<rparr>"

definition example_controller :: "ExecutionHandler \<Rightarrow> StrategyState Controller" where
  "example_controller handler =
     \<lparr> ctl_event_queue = [], current_time = 0,
       portfolio = Portfolio_init 100000 (5/2) (25/2) (1/4),
       execution_handler = handler, strategy = example_strategy \<rparr>"

text \<open>A strategy that keeps the position bookkeeping of the footprint strategy and does
  nothing on market data.\<close>

definition example_handlers :: "StrategyState StrategyHandlers" where
  "example_handlers =
     \<lparr> on_market_data = (\<lambda>self event. Inr self), on_fill = footprint_on_fill,
       on_order_status = footprint_on_order_status \<rparr>"

text \<open>The state of the handler after the entry order for one contract has been executed
  on the synthetic book, and the fill that this execution emitted.\<close>

definition example_filled :: ExecutionHandler where
  "example_filled = execute_order (example_submitted True MARKET 1) (example_entry MARKET 1)"

definition example_fill :: FillEvent where
  "example_fill =
     \<lparr> fill_timestamp = 600002, fill_order_id = ''ENTRY_1_42'',
       fill_strategy_id = ''FootprintDiagonalRatioStrategy_ES'', fill_symbol = ''ES'',
       fill_direction = BUY, quantity_filled = 1, fill_price = 23801/4, commission = 5/2,
       fill_linked_stop_price = Some (11895/2), fill_linked_target_price = Some (47653/8) \<rparr>"

fun the_controller :: "py_error + 's Controller \<Rightarrow> 's Controller option" where
  "the_controller (Inl e) = None"
| "the_controller (Inr c) = Some c"




section \<open>The worked scenario, evaluated\<close>

text \<open>The synthetic book of the test scenarios: ten bids from 5950.00 down and ten asks
  from 5950.25 up, a tick apart.\<close>

lemma example_book_code [code]:
  "example_book =
     \<lparr> ob_symbol = ''ES'', ob_tick_size = 1/4,
       bids =
       [(5950, \<lparr>qty = 1000, num_orders = 5\<rparr>),
        (23799/4, \<lparr>qty = 900, num_orders = 5\<rparr>),
        (11899/2, \<lparr>qty = 800, num_orders = 5\<rparr>),
        (23797/4, \<lparr>qty = 700, num_orders = 5\<rparr>),
        (5949, \<lparr>qty = 600, num_orders = 5\<rparr>),
        (23795/4, \<lparr>qty = 500, num_orders = 5\<rparr>),
        (11897/2, \<lparr>qty = 400, num_orders = 5\<rparr>),
        (23793/4, \<lparr>qty = 300, num_orders = 5\<rparr>),
        (5948, \<lparr>qty = 200, num_orders = 5\<rparr>),
        (23791/4, \<lparr>qty = 100, num_orders = 5\<rparr>)],
       asks =
       [(23801/4, \<lparr>qty = 100, num_orders = 5\<rparr>),
        (11901/2, \<lparr>qty = 200, num_orders = 5\<rparr>),
        (23803/4, \<lparr>qty = 300, num_orders = 5\<rparr>),
        (5951, \<lparr>qty = 400, num_orders = 5\<rparr>),
        (23805/4, \<lparr>qty = 500, num_orders = 5\<rparr>),
        (11903/2, \<lparr>qty = 600, num_orders = 5\<rparr>),
        (23807/4, \<lparr>qty = 700, num_orders = 5\<rparr>),
        (5952, \<lparr>qty = 800, num_orders = 5\<rparr>),
        (23809/4, \<lparr>qty = 900, num_orders = 5\<rparr>),
        (11905/2, \<lparr>qty = 1000, num_orders = 5\<rparr>)],
       last_update_time = 0, best_bid = Some 5950, best_ask = Some (23801/4) \<rparr>"
  unfolding example_book_def by code_simp

section \<open>Portfolio: cash accounting\<close>

lemma map_of_dict_set: "map_of (dict_set k v xs) = (map_of xs)(k \<mapsto> v)"
  by (induction xs) (auto simp: fun_eq_iff)

lemma keys_dict_set: "fst ` set (dict_set k v xs) = insert k (fst ` set xs)"
  using arg_cong [OF map_of_dict_set [of k v xs], of dom]
  by (simp add: dom_map_of_conv_image_fst)

lemma distinct_dict_set: "distinct (map fst xs) \<Longrightarrow> distinct (map fst (dict_set k v xs))"
  by (induction xs) (auto simp: keys_dict_set)

lemma set_dict_del: "set (dict_del k xs) \<subseteq> set xs"
  by (induction xs) (auto split: if_splits)

lemma keys_dict_del: "fst ` set (dict_del k xs) \<subseteq> fst ` set xs"
  using set_dict_del [of k xs] by auto

lemma distinct_dict_del: "distinct (map fst xs) \<Longrightarrow> distinct (map fst (dict_del k xs))"
proof (induction xs)
  case Nil then show ?case by simp
next
  case (Cons a xs)
  then show ?case using keys_dict_del [of k xs] by (cases a) auto
qed

lemma map_of_dict_del:
  "distinct (map fst xs) \<Longrightarrow> map_of (dict_del k xs) = (map_of xs)(k := None)"
proof (induction xs)
  case Nil then show ?case by simp
next
  case (Cons a xs)
  obtain k' v' where a: "a = (k', v')" by (cases a)
  show ?case
  proof (cases "k = k'")
    case True
    with Cons.prems a have "map_of xs k = None"
      by (auto simp: map_of_eq_None_iff)
    with True a show ?thesis by (auto simp: fun_eq_iff)
  next
    case False
    with Cons a show ?thesis by (auto simp: fun_eq_iff)
  qed
qed

lemma unrealized_loop_total:
  "pf_tick_size self \<noteq> 0 \<Longrightarrow> \<exists>u. unrealized_loop self hs acc = Inr u"
  by (induction self hs acc rule: unrealized_loop.induct) (auto split: option.splits)

lemma update_equity_total:
  assumes "pf_tick_size self \<noteq> 0"
  shows "\<exists>p. update_equity self t = Inr p \<and> cash p = cash self \<and> holdings p = holdings self
     \<and> positions_avg_price p = positions_avg_price self \<and> open_positions p = open_positions self
     \<and> pf_tick_size p = pf_tick_size self \<and> initial_capital p = initial_capital self"
proof -
  from unrealized_loop_total [OF assms] obtain u where "unrealized_loop self (holdings self) 0 = Inr u"
    by blast
  then show ?thesis by (simp add: update_equity_def Let_def)
qed

lemma update_equity_cash: "update_equity self t = Inr p \<Longrightarrow> cash p = cash self"
  by (auto simp: update_equity_def Let_def split: sum.splits if_splits)

lemma update_equity_open:
  "update_equity self t = Inr p \<Longrightarrow> open_positions p = open_positions self"
  by (auto simp: update_equity_def Let_def split: sum.splits if_splits)

lemma close_or_flip_cash:
  "close_or_flip ok self e c n = Inr p \<Longrightarrow> cash p = cash self \<and> holdings p = holdings self"
  by (auto simp: close_or_flip_def Let_def split: option.splits if_splits)

lemma open_or_add_cash:
  "open_or_add self e c pc n = Inr p \<Longrightarrow> cash p = cash self \<and> holdings p = holdings self"
  by (auto simp: open_or_add_def Let_def split: option.splits if_splits)

text \<open>Whatever else a fill changes, the cash after it is the cash before it less the cost
  of the fill, computed in the Decimal context.\<close>

lemma update_fill_cash:
  assumes "update_fill ok self e = Inr p"
  shows "cash p = cash_after_fill (cash self) e"
  using assms unfolding update_fill_def Let_def cash_after_fill_def
  by (auto split: sum.splits if_splits
      dest!: close_or_flip_cash open_or_add_cash update_equity_cash simp: dir_sign_def)

lemma holdings_get_touch: "holdings_get (holdings_touch hs s) s' = holdings_get hs s'"
  by (auto simp: holdings_get_def holdings_touch_def dict_get_def map_of_dict_set split: option.splits)

lemma distinct_touch: "distinct (map fst hs) \<Longrightarrow> distinct (map fst (holdings_touch hs s))"
  by (auto simp: holdings_touch_def distinct_dict_set split: option.splits)

lemma holdings_get_final:
  assumes "distinct (map fst hs)"
  shows "holdings_get (if n = 0 then dict_del s (dict_set s n hs) else dict_set s n hs) s'
       = (if s' = s then n else holdings_get hs s')"
  using assms
  by (auto simp: holdings_get_def dict_get_def map_of_dict_set map_of_dict_del distinct_dict_set)

lemma distinct_final:
  assumes "distinct (map fst hs)"
  shows "distinct (map fst (if n = 0 then dict_del s (dict_set s n hs) else dict_set s n hs))"
  using assms by (auto simp: distinct_dict_set distinct_dict_del)

lemma close_or_flip_ok:
  assumes "pf_tick_size p \<noteq> 0" "positions_avg_price p (fill_symbol e) \<noteq> None"
    "open_positions p (fill_symbol e) \<noteq> None"
    "\<forall>s d. open_positions p s = Some d \<longrightarrow> ok (entry_time d)" "ok (fill_time e)"
  shows "\<exists>q. close_or_flip ok p e c n = Inr q \<and> holdings q = holdings p \<and>
     pf_tick_size q = pf_tick_size p \<and>
     (\<forall>s. s \<noteq> fill_symbol e \<longrightarrow> positions_avg_price q s = positions_avg_price p s \<and>
        open_positions q s = open_positions p s) \<and>
     (n \<noteq> 0 \<longrightarrow> positions_avg_price q (fill_symbol e) \<noteq> None \<and>
        open_positions q (fill_symbol e) \<noteq> None) \<and>
     (\<forall>d. open_positions q (fill_symbol e) = Some d \<longrightarrow> ok (entry_time d))"
  using assms
  by (auto simp: close_or_flip_def Let_def new_open_position_def split: option.splits)

lemma open_or_add_ok:
  assumes "c \<noteq> 0 \<longrightarrow> positions_avg_price p (fill_symbol e) \<noteq> None \<and>
    open_positions p (fill_symbol e) \<noteq> None"
    "\<forall>s d. open_positions p s = Some d \<longrightarrow> ok (entry_time d)" "ok (fill_time e)"
  shows "\<exists>q. open_or_add p e c pc n = Inr q \<and> holdings q = holdings p \<and>
     pf_tick_size q = pf_tick_size p \<and>
     (\<forall>s. s \<noteq> fill_symbol e \<longrightarrow> positions_avg_price q s = positions_avg_price p s \<and>
        open_positions q s = open_positions p s) \<and>
     (positions_avg_price q (fill_symbol e) \<noteq> None \<and>
        open_positions q (fill_symbol e) \<noteq> None) \<and>
     (\<forall>d. open_positions q (fill_symbol e) = Some d \<longrightarrow> ok (entry_time d))"
  using assms
  by (auto simp: open_or_add_def Let_def new_open_position_def split: option.splits)

lemma update_fill_inv:
  assumes inv: "pf_inv ok p" and oke: "ok (fill_time e)"
  shows "\<exists>q. update_fill ok p e = Inr q \<and> pf_inv ok q"
proof -
  define sym where "sym = fill_symbol e"
  define cur where "cur = holdings_get (holdings p) sym"
  define pc where "pc = quantity_filled e * (if fill_direction e = BUY then 1 else -1 :: int)"
  define n where "n = cur + pc"
  define p1 where "p1 = p\<lparr>cash := dec_sub (cash p)
      (dec_add (dec_mul (dec_mul (fill_price e) (of_int (quantity_filled e)))
         (of_int (if fill_direction e = BUY then 1 else -1 :: int))) (commission e))\<rparr>"
  define p2 where "p2 = p1\<lparr>holdings := holdings_touch (holdings p1) sym\<rparr>"
  define branch where "branch = (if cur \<noteq> 0 \<and> n * cur \<le> 0 then close_or_flip ok p2 e cur n
     else if n \<noteq> 0 then open_or_add p2 e cur pc n else Inr p2)"
  have dist: "distinct (map fst (holdings p))" and tick: "pf_tick_size p \<noteq> 0"
    and held: "\<And>s. holdings_get (holdings p) s \<noteq> 0 \<Longrightarrow>
        positions_avg_price p s \<noteq> None \<and> open_positions p s \<noteq> None"
    and times: "\<forall>s d. open_positions p s = Some d \<longrightarrow> ok (entry_time d)"
    using inv by (auto simp: pf_inv_def)
  have p2_simps: "pf_tick_size p2 = pf_tick_size p" "positions_avg_price p2 = positions_avg_price p"
    "open_positions p2 = open_positions p" "holdings p2 = holdings_touch (holdings p) sym"
    by (simp_all add: p2_def p1_def)
  have times2: "\<forall>s d. open_positions p2 s = Some d \<longrightarrow> ok (entry_time d)"
    using times by (simp add: p2_simps)
  have "\<exists>q. branch = Inr q \<and> holdings q = holdings p2 \<and> pf_tick_size q = pf_tick_size p2 \<and>
     (\<forall>s. s \<noteq> sym \<longrightarrow> positions_avg_price q s = positions_avg_price p2 s \<and>
        open_positions q s = open_positions p2 s) \<and>
     (n \<noteq> 0 \<longrightarrow> positions_avg_price q sym \<noteq> None \<and> open_positions q sym \<noteq> None) \<and>
     (\<forall>d. open_positions q sym = Some d \<longrightarrow> ok (entry_time d))"
  proof (cases "cur \<noteq> 0 \<and> n * cur \<le> 0")
    case True
    then have "positions_avg_price p2 (fill_symbol e) \<noteq> None" "open_positions p2 (fill_symbol e) \<noteq> None"
      using held [of sym] by (simp_all add: p2_simps cur_def sym_def)
    from close_or_flip_ok [OF _ this times2 oke, of cur n] tick True show ?thesis
      by (simp add: branch_def p2_simps sym_def)
  next
    case False
    show ?thesis
    proof (cases "n \<noteq> 0")
      case True
      have "cur \<noteq> 0 \<longrightarrow> positions_avg_price p2 (fill_symbol e) \<noteq> None \<and>
          open_positions p2 (fill_symbol e) \<noteq> None"
        using held [of sym] by (simp add: p2_simps cur_def sym_def)
      from open_or_add_ok [OF this times2 oke, of pc n] False True show ?thesis
        by (auto simp add: branch_def sym_def)
    next
      case n0: False
      with False times2 show ?thesis by (simp add: branch_def)
    qed
  qed
  then obtain q where q: "branch = Inr q" "holdings q = holdings p2" "pf_tick_size q = pf_tick_size p2"
    "\<And>s. s \<noteq> sym \<Longrightarrow> positions_avg_price q s = positions_avg_price p2 s \<and>
        open_positions q s = open_positions p2 s"
    "n \<noteq> 0 \<Longrightarrow> positions_avg_price q sym \<noteq> None \<and> open_positions q sym \<noteq> None"
    "\<And>d. open_positions q sym = Some d \<Longrightarrow> ok (entry_time d)"
    by blast
  define q5 where "q5 = (if n = 0 then (q\<lparr>holdings := dict_set sym n (holdings q)\<rparr>)
      \<lparr>holdings := dict_del sym (dict_set sym n (holdings q))\<rparr>
      else q\<lparr>holdings := dict_set sym n (holdings q)\<rparr>)"
  have q5_simps: "pf_tick_size q5 = pf_tick_size p" "positions_avg_price q5 = positions_avg_price q"
    "open_positions q5 = open_positions q"
    "holdings q5 = (if n = 0 then dict_del sym (dict_set sym n (holdings q)) else dict_set sym n (holdings q))"
    by (simp_all add: q5_def q p2_simps)
  have uf0: "update_fill ok p e = (case branch of Inl x \<Rightarrow> Inl x | Inr s3 \<Rightarrow>
      update_equity (if n = 0 then (s3\<lparr>holdings := dict_set sym n (holdings s3)\<rparr>)
      \<lparr>holdings := dict_del sym (dict_set sym n (holdings s3))\<rparr>
      else s3\<lparr>holdings := dict_set sym n (holdings s3)\<rparr>) (fill_timestamp e))"
    by (simp add: update_fill_def Let_def branch_def p2_def p1_def n_def pc_def cur_def sym_def
        cong: sum.case_cong)
  have uf: "update_fill ok p e = update_equity q5 (fill_timestamp e)"
    by (simp only: uf0 q(1) q5_def sum.case)
  from update_equity_total [of q5 "fill_timestamp e"] tick obtain r where
    r: "update_equity q5 (fill_timestamp e) = Inr r" "holdings r = holdings q5"
      "positions_avg_price r = positions_avg_price q5" "open_positions r = open_positions q5"
      "pf_tick_size r = pf_tick_size q5"
    by (auto simp: q5_simps)
  have dq: "distinct (map fst (holdings q))"
    using dist by (simp add: q p2_simps distinct_touch)
  have hg: "\<And>s. holdings_get (holdings r) s = (if s = sym then n else holdings_get (holdings p) s)"
    using holdings_get_final [OF dq, of n sym] by (simp add: r q5_simps q p2_simps holdings_get_touch)
  have "pf_inv ok r"
    unfolding pf_inv_def
  proof (intro conjI allI impI)
    show "pf_tick_size r \<noteq> 0" using tick by (simp add: r q5_simps)
    show "distinct (map fst (holdings r))"
      using distinct_final [OF dq, of n sym] by (simp add: r q5_simps)
  next
    fix s assume "holdings_get (holdings r) s \<noteq> 0"
    then have nz: "(if s = sym then n else holdings_get (holdings p) s) \<noteq> 0"
      by (simp add: hg)
    have maps: "positions_avg_price r s = positions_avg_price q s"
      "open_positions r s = open_positions q s"
      by (simp_all add: r q5_simps)
    show "positions_avg_price r s \<noteq> None"
      using nz q(4) [of s] q(5) held [of s] maps by (cases "s = sym") (auto simp: p2_simps)
    show "open_positions r s \<noteq> None"
      using nz q(4) [of s] q(5) held [of s] maps by (cases "s = sym") (auto simp: p2_simps)
  next
    fix s d assume "open_positions r s = Some d"
    then have od: "open_positions q s = Some d" by (simp add: r q5_simps)
    show "ok (entry_time d)"
    proof (cases "s = sym")
      case True
      with od q(6) show ?thesis by simp
    next
      case False
      with od q(4) [of s] times show ?thesis by (simp add: p2_simps)
    qed
  qed
  with uf r(1) show ?thesis by simp
qed

lemma update_fills_inv:
  "pf_inv ok p \<Longrightarrow> \<forall>e \<in> set es. ok (fill_time e) \<Longrightarrow> \<exists>q. update_fills ok p es = Inr q \<and> pf_inv ok q"
proof (induction es arbitrary: p)
  case Nil then show ?case by simp
next
  case (Cons e es)
  from update_fill_inv [OF Cons.prems(1), of e] Cons.prems(2)
  obtain q where "update_fill ok p e = Inr q" "pf_inv ok q" by auto
  with Cons.IH [of q] Cons.prems(2) show ?case by simp
qed

lemma update_fills_cash:
  "update_fills ok p es = Inr q \<Longrightarrow> cash q = foldl cash_after_fill (cash p) es"
proof (induction es arbitrary: p)
  case Nil then show ?case by simp
next
  case (Cons e es)
  then obtain p' where 1: "update_fill ok p e = Inr p'" and 2: "update_fills ok p' es = Inr q"
    by (auto split: sum.splits)
  from Cons.IH [OF 2] update_fill_cash [OF 1] show ?case by simp
qed

text \<open>When no operation rounds, the Decimal recurrence is the exact sum.\<close>

lemma cash_unrounded_exact:
  "cash_unrounded c es \<Longrightarrow>
   foldl cash_after_fill c es = c
     - (\<Sum>e\<leftarrow>es. fill_price e * of_int (quantity_filled e) * dir_sign (fill_direction e))
     - (\<Sum>e\<leftarrow>es. commission e)"
proof (induction es arbitrary: c)
  case Nil then show ?case by simp
next
  case (Cons e es)
  let ?v = "fill_price e * of_int (quantity_filled e)"
  let ?cost = "?v * dir_sign (fill_direction e) + commission e"
  from Cons.prems have r: "representable ?v" "representable (?v * dir_sign (fill_direction e))"
    "representable ?cost" "representable (c - ?cost)" and rest: "cash_unrounded (c - ?cost) es"
    by (simp_all add: Let_def)
  have step: "cash_after_fill c e = c - ?cost"
    using r by (simp add: cash_after_fill_def dec_sub_def dec_add_def dec_mul_def representable_def)
  from Cons.IH [OF rest] show ?case by (simp add: step)
qed

lemma pf_inv_init: "ts \<noteq> 0 \<Longrightarrow> pf_inv ok (Portfolio_init ic c tv ts)"
  by (simp add: pf_inv_def Portfolio_init_def holdings_get_def dict_get_def)

text \<open>
  Claim C7, as the code has it. A freshly initialised portfolio with a non-zero tick size
  processes any sequence of fills whose times convert to a \<^verbatim>\<open>datetime\<close> without an
  exception, and its cash is then the value of the recurrence
  \<^verbatim>\<open>cash := cash - ((fill_price * quantity_filled) * dir + commission)\<close> started at the
  initial capital, in which every product, sum and difference is rounded half-even to the
  precision of the Decimal context (12 significant digits). When none of these operations
  rounds, the cash equals the initial capital minus the sum of fill price times filled
  quantity times direction (+1 for BUY, -1 for SELL) minus the sum of the commissions.
\<close>

theorem portfolio_cash_accounting:
  assumes "tick_size' \<noteq> 0" and "\<forall>e \<in> set fills. fromtimestamp_ok (fill_time e)"
  shows "\<exists>p. update_fills fromtimestamp_ok
                (Portfolio_init capital comm tick_value' tick_size') fills = Inr p \<and>
    cash p = foldl cash_after_fill capital fills \<and>
    (cash_unrounded capital fills \<longrightarrow>
       cash p = capital
         - (\<Sum>e\<leftarrow>fills. fill_price e * of_int (quantity_filled e) * dir_sign (fill_direction e))
         - (\<Sum>e\<leftarrow>fills. commission e))"
proof -
  from update_fills_inv [OF pf_inv_init [OF assms(1)] assms(2), of capital comm tick_value']
  obtain p where p: "update_fills fromtimestamp_ok
      (Portfolio_init capital comm tick_value' tick_size') fills = Inr p"
    by blast
  from update_fills_cash [OF p] have c: "cash p = foldl cash_after_fill capital fills"
    by (simp add: Portfolio_init_def)
  with p cash_unrounded_exact [of capital fills] show ?thesis by auto
qed

theorem portfolio_cash_accounting_witness:
  "(1/4 :: rat) \<noteq> 0 \<and> example_fromtimestamp_ok 600002 \<and> example_fromtimestamp_ok 700000 \<and>
   cash_unrounded 100000
      [\<lparr>fill_timestamp = 600002, fill_order_id = ''ENTRY_1_0'', fill_strategy_id = ''S'',
         fill_symbol = ''ES'', fill_direction = BUY, quantity_filled = 2,
         fill_price = 23801/4, commission = 5,
         fill_linked_stop_price = None, fill_linked_target_price = None\<rparr>,
       \<lparr>fill_timestamp = 700000, fill_order_id = ''TARGET_2_0'', fill_strategy_id = ''S'',
         fill_symbol = ''ES'', fill_direction = SELL, quantity_filled = 3,
         fill_price = 5956, commission = 15/2,
         fill_linked_stop_price = None, fill_linked_target_price = None\<rparr>] \<and>
   (\<exists>p. update_fills example_fromtimestamp_ok (Portfolio_init 100000 (5/2) (25/2) (1/4))
      [\<lparr>fill_timestamp = 600002, fill_order_id = ''ENTRY_1_0'', fill_strategy_id = ''S'',
         fill_symbol = ''ES'', fill_direction = BUY, quantity_filled = 2,
         fill_price = 23801/4, commission = 5,
         fill_linked_stop_price = None, fill_linked_target_price = None\<rparr>,
       \<lparr>fill_timestamp = 700000, fill_order_id = ''TARGET_2_0'', fill_strategy_id = ''S'',
         fill_symbol = ''ES'', fill_direction = SELL, quantity_filled = 3,
         fill_price = 5956, commission = 15/2,
         fill_linked_stop_price = None, fill_linked_target_price = None\<rparr>] = Inr p \<and>
     cash p = 105955)"
proof -
  let ?fills = "[\<lparr>fill_timestamp = 600002, fill_order_id = ''ENTRY_1_0'', fill_strategy_id = ''S'',
         fill_symbol = ''ES'', fill_direction = BUY, quantity_filled = 2,
         fill_price = 23801/4, commission = 5,
         fill_linked_stop_price = None, fill_linked_target_price = None\<rparr>,
       \<lparr>fill_timestamp = 700000, fill_order_id = ''TARGET_2_0'', fill_strategy_id = ''S'',
         fill_symbol = ''ES'', fill_direction = SELL, quantity_filled = 3,
         fill_price = 5956, commission = 15/2,
         fill_linked_stop_price = None, fill_linked_target_price = None\<rparr>]"
  have ok: "example_fromtimestamp_ok 600002" "example_fromtimestamp_ok 700000"
    by (simp_all add: example_fromtimestamp_ok_def)
  have un: "cash_unrounded 100000 ?fills" by code_simp
  have times: "\<forall>e \<in> set ?fills. example_fromtimestamp_ok (fill_time e)"
    using ok by (simp add: fill_time_def)
  have tick: "(1/4 :: rat) \<noteq> 0" by simp
  from portfolio_cash_accounting [OF tick times, of 100000 "5/2" "25/2"]
  obtain p where p: "update_fills example_fromtimestamp_ok
        (Portfolio_init 100000 (5/2) (25/2) (1/4)) ?fills = Inr p"
    and imp: "cash_unrounded 100000 ?fills \<longrightarrow> cash p = 100000
         - (\<Sum>e\<leftarrow>?fills. fill_price e * of_int (quantity_filled e) * dir_sign (fill_direction e))
         - (\<Sum>e\<leftarrow>?fills. commission e)"
    by blast
  from imp un have "cash p = 100000
         - (\<Sum>e\<leftarrow>?fills. fill_price e * of_int (quantity_filled e) * dir_sign (fill_direction e))
         - (\<Sum>e\<leftarrow>?fills. commission e)"
    by blast
  also have "\<dots> = 105955" by (simp add: dir_sign_def)
  finally have "cash p = 105955" .
  with p have "\<exists>p. update_fills example_fromtimestamp_ok (Portfolio_init 100000 (5/2) (25/2) (1/4)) ?fills
      = Inr p \<and> cash p = 105955"
    by blast
  with ok un tick show ?thesis by blast
qed

text \<open>
  Claim C7 as stated fails where an operation rounds. The fill that a market order for
  150 contracts on the synthetic book emits has the price 5950.33333333 and the commission
  375. From a capital of 100000 the portfolio is left with a cash of -792925, while
  the initial capital minus price times quantity minus commission is -792924.9999995.
\<close>

theorem rounded_cash_counterexample:
  "result_cash (update_fills example_fromtimestamp_ok (Portfolio_init 100000 (5/2) (25/2) (1/4))
      [\<lparr>fill_timestamp = 600002, fill_order_id = ''ENTRY_1_42'', fill_strategy_id = ''S'',
         fill_symbol = ''ES'', fill_direction = BUY, quantity_filled = 150,
         fill_price = 595033333333 / 100000000, commission = 375,
         fill_linked_stop_price = None, fill_linked_target_price = None\<rparr>])
     = Some (- 792925) \<and>
   100000 - (595033333333 / 100000000) * of_int 150 * dir_sign BUY - 375
     = (- 7929249999995 / 10000000 :: rat) \<and>
   (- 7929249999995 / 10000000 :: rat) \<noteq> - 792925"
  by code_simp


section \<open>Order book: queue estimate and depth commands\<close>

lemma map_of_sd_setitem: "map_of (sd_setitem key k v xs) = (map_of xs)(k \<mapsto> v)"
  by (induction xs) (auto simp: fun_eq_iff)

lemma map_of_sd_delitem: "map_of (sd_delitem k xs) = (map_of xs)(k := None)"
  by (induction xs) (auto simp: fun_eq_iff sd_delitem_def)

lemma depth_update_side_UPDATE:
  assumes "depth_command ev = UPDATE"
  shows "map_of (depth_update_side key ev xs) =
    (if depth_quantity ev > 0
     then (map_of xs)(depth_price ev \<mapsto>
            \<lparr>qty = depth_quantity ev, num_orders = depth_num_orders ev\<rparr>)
     else (map_of xs)(depth_price ev := None))"
  using assms
  by (auto simp: depth_update_side_def Let_def map_of_sd_setitem map_of_sd_delitem
      sd_contains_def fun_eq_iff)

text \<open>The placeholder commands \<^verbatim>\<open>UNKNOWN_4\<close> to \<^verbatim>\<open>UNKNOWN_7\<close> match neither branch
  of \<^verbatim>\<open>process_depth_event\<close>: the ladders stay as they are.\<close>

lemma depth_update_side_UNKNOWN:
  assumes "depth_command ev \<in> {UNKNOWN_4, UNKNOWN_5, UNKNOWN_6, UNKNOWN_7}"
  shows "depth_update_side key ev xs = xs"
  using assms by (auto simp: depth_update_side_def Let_def)

lemma placeholder_command_changes_no_level:
  assumes "4 \<le> row_command row" "row_command row \<le> 7"
  shows "bids (process_depth_event book (create_depth_event_from_row symbol row)) = bids book \<and>
         asks (process_depth_event book (create_depth_event_from_row symbol row)) = asks book"
proof -
  have "row_command row = 4 \<or> row_command row = 5 \<or> row_command row = 6 \<or> row_command row = 7"
    using assms by arith
  then have "depth_command (create_depth_event_from_row symbol row)
      \<in> {UNKNOWN_4, UNKNOWN_5, UNKNOWN_6, UNKNOWN_7}"
    by (auto simp: create_depth_event_from_row_def OrderCommand_of_value_def)
  from depth_update_side_UNKNOWN [OF this] show ?thesis
    by (simp add: process_depth_event_def Let_def refresh_best_def)
qed

text \<open>
  Claim C8, as the code has it. A depth row whose command code is no member of
  \<^verbatim>\<open>OrderCommand\<close> (a code below 1 or above 7) gives an UPDATE event. Applied to a book
  of the same symbol that is not newer than the row, the event sets the level at its price
  to the row's quantity and number of orders when the quantity is positive and removes the
  level otherwise, on the bid ladder for odd flags and on the ask ladder for even flags;
  the other ladder is untouched.
\<close>

theorem unknown_depth_command_is_update:
  assumes "row_command row < 1 \<or> 7 < row_command row"
    and "last_update_time book \<le> row_timestamp row"
  shows "let ev = create_depth_event_from_row (ob_symbol book) row;
             book' = process_depth_event book ev;
             level = \<lparr>qty = row_qty row, num_orders = row_num_orders row\<rparr>
         in depth_command ev = UPDATE \<and>
            (if row_flags row mod 2 = 1
             then map_of (bids book') =
                    (if row_qty row > 0 then (map_of (bids book))(row_price row \<mapsto> level)
                     else (map_of (bids book))(row_price row := None)) \<and>
                  asks book' = asks book
             else map_of (asks book') =
                    (if row_qty row > 0 then (map_of (asks book))(row_price row \<mapsto> level)
                     else (map_of (asks book))(row_price row := None)) \<and>
                  bids book' = bids book)"
proof -
  define ev where "ev = create_depth_event_from_row (ob_symbol book) row"
  have cmd: "depth_command ev = UPDATE"
    using assms(1) by (auto simp: ev_def create_depth_event_from_row_def OrderCommand_of_value_def)
  have fields: "depth_symbol ev = ob_symbol book" "depth_timestamp ev = row_timestamp row"
    "depth_price ev = row_price row" "depth_quantity ev = row_qty row"
    "depth_num_orders ev = row_num_orders row"
    "depth_side ev = (if row_flags row mod 2 = 1 then SELL else BUY)"
    by (simp_all add: ev_def create_depth_event_from_row_def Let_def determine_side_from_flags_def)
  show ?thesis
    unfolding Let_def ev_def [symmetric]
    using cmd assms(2) depth_update_side_UPDATE [OF cmd]
    by (simp add: process_depth_event_def Let_def refresh_best_def fields)
qed

theorem unknown_depth_command_is_update_witness:
  "(7::int) < 9 \<and>
   asks (process_depth_event (OrderBook_init ''ES'' (1/4) False)
           (create_depth_event_from_row ''ES''
              \<lparr>row_timestamp = 5, row_command = 9, row_flags = 0, row_num_orders = 2,
               row_price = 100, row_qty = 10\<rparr>)) = [(100, \<lparr>qty = 10, num_orders = 2\<rparr>)] \<and>
   map_of (asks (process_depth_event (OrderBook_init ''ES'' (1/4) False)
           (create_depth_event_from_row ''ES''
              \<lparr>row_timestamp = 5, row_command = 9, row_flags = 0, row_num_orders = 2,
               row_price = 100, row_qty = 10\<rparr>))) 100 = Some \<lparr>qty = 10, num_orders = 2\<rparr>"
  using unknown_depth_command_is_update [of
      "\<lparr>row_timestamp = 5, row_command = 9, row_flags = 0, row_num_orders = 2,
        row_price = 100, row_qty = 10\<rparr>" "OrderBook_init ''ES'' (1/4) False"]
  by (simp add: OrderBook_init_def create_depth_event_from_row_def OrderCommand_of_value_def
      determine_side_from_flags_def process_depth_event_def depth_update_side_def
      refresh_best_def sd_contains_def ask_key_def Let_def)

text \<open>
  Claim C8 as stated fails for the codes 4 to 7: they are members of \<^verbatim>\<open>OrderCommand\<close>, so
  the loader keeps them, and the book ignores them. A row with command 4 and quantity 10 at
  price 100 sets no level.
\<close>

theorem command_4_is_not_update_counterexample:
  "row_command \<lparr>row_timestamp = 5, row_command = 4, row_flags = 0, row_num_orders = 2,
                 row_price = 100, row_qty = 10\<rparr> \<notin> {1, 2, 3} \<and>
   depth_command (create_depth_event_from_row ''ES''
              \<lparr>row_timestamp = 5, row_command = 4, row_flags = 0, row_num_orders = 2,
               row_price = 100, row_qty = 10\<rparr>) \<noteq> UPDATE \<and>
   map_of (asks (process_depth_event (OrderBook_init ''ES'' (1/4) False)
           (create_depth_event_from_row ''ES''
              \<lparr>row_timestamp = 5, row_command = 4, row_flags = 0, row_num_orders = 2,
               row_price = 100, row_qty = 10\<rparr>))) 100 \<noteq> Some \<lparr>qty = 10, num_orders = 2\<rparr>"
  by (simp add: OrderBook_init_def create_depth_event_from_row_def OrderCommand_of_value_def
      determine_side_from_flags_def process_depth_event_def depth_update_side_def
      refresh_best_def Let_def)

text \<open>The estimate for a SELL order is the Decimal sum of the quantities on the asks below
  the order price.\<close>

lemma estimate_quantity_ahead_SELL:
  "estimate_quantity_ahead book (Some p) SELL =
     foldl add_level_qty 0 (filter (\<lambda>(price, level). price < p) (asks book))"
  by (simp add: estimate_quantity_ahead_def sd_irange_exclusive_def ask_key_def)

text \<open>For a BUY order the lower bound of \<^verbatim>\<open>irange\<close> goes through the key function of the
  bids, the negation: the estimate is the Decimal sum of the quantities on the bids strictly
  below the order price.\<close>

lemma estimate_quantity_ahead_BUY:
  "estimate_quantity_ahead book (Some p) BUY =
     foldl add_level_qty 0 (filter (\<lambda>(price, level). price < p) (bids book))"
  by (simp add: estimate_quantity_ahead_def sd_irange_exclusive_def bid_key_def)

text \<open>
  Claim C6 on the synthetic book (bids of 1000 at 5950.00, 900 at 5949.75, 800 at 5949.50,
  down to 100 at 5947.75). For a BUY order at 5949.75 the quantity at strictly higher bids
  is 1000; \<^verbatim>\<open>estimate_quantity_ahead\<close> returns 3600, the sum of the bids below 5949.75.
\<close>

theorem estimate_quantity_ahead_BUY_sums_lower_bids:
  "estimate_quantity_ahead (OrderBook_init ''ES'' (1/4) True) (Some (23799/4)) BUY = 3600 \<and>
   quantity_at_better_prices (OrderBook_init ''ES'' (1/4) True) (23799/4) BUY = 1000"
  by code_simp

section \<open>Execution: market orders\<close>

lemma map_of_dict_mutate:
  "map_of (dict_mutate k v xs) = (if map_of xs k = None then map_of xs else (map_of xs)(k \<mapsto> v))"
  by (induction xs) (auto simp: dict_mutate_def fun_eq_iff)

lemma greedy_fill_keys: "map fst (greedy_fill xs q) = map fst xs"
  by (induction xs q rule: greedy_fill.induct) auto

lemma map_of_greedy_None:
  assumes "p \<notin> fst ` set xs"
  shows "map_of (greedy_fill xs q) p = None"
proof -
  have "fst ` set (greedy_fill xs q) = fst ` set xs"
    using arg_cong [OF greedy_fill_keys [of xs q], of set] by simp
  with assms show ?thesis by (simp add: map_of_eq_None_iff)
qed

lemma greedy_fill_zero:
  "list_all (\<lambda>(p, l). 0 < qty l) xs \<Longrightarrow> greedy_fill xs 0 = map (\<lambda>(p, l). (p, 0)) xs"
  by (induction xs) auto

lemma zero_sums:
  "consumed_quantity (map (\<lambda>(p, l). (p, 0)) xs) = 0"
  "(\<Sum>(p, c) \<leftarrow> map (\<lambda>(p, l). (p, 0::int)) xs. of_int c * p) = (0::rat)"
  by (induction xs) (auto simp: consumed_quantity_def)

lemma map_of_zero_map:
  "map_of (map (\<lambda>(p, l). (p, 0::int)) xs) p = (case map_of xs p of None \<Rightarrow> None | Some l \<Rightarrow> Some 0)"
  by (induction xs) auto


lemma ladder_after_zero:
  assumes "list_all (\<lambda>(p, l). 0 < qty l) xs" "\<forall>(p, l) \<in> set xs. map_of ladder p = Some l"
  shows "ladder_after (map (\<lambda>(p, l). (p, 0)) xs) ladder p' = map_of ladder p'"
proof (cases "map_of xs p'")
  case None
  then show ?thesis by (simp add: ladder_after_def map_of_zero_map)
next
  case (Some l')
  then have "(p', l') \<in> set xs" by (rule map_of_SomeD)
  with assms have "map_of ladder p' = Some l'" "0 < qty l'"
    by (auto simp: list_all_iff)
  with Some show ?thesis by (simp add: ladder_after_def map_of_zero_map)
qed

lemma walk_step_ladder:
  assumes lp: "map_of ladder p = Some l"
  shows "map_of (if qty l - c \<le> 0 then sd_delitem p (dict_mutate p (l\<lparr>qty := qty l - c\<rparr>) ladder)
                 else dict_mutate p (l\<lparr>qty := qty l - c\<rparr>) ladder)
    = (map_of ladder)(p := if qty l - c \<le> 0 then None else Some (l\<lparr>qty := qty l - c\<rparr>))"
  using lp by (simp add: map_of_dict_mutate map_of_sd_delitem)


lemma filter_zero_map:
  "filter (\<lambda>(p, c). c \<noteq> 0) (map (\<lambda>(p, l). (p, 0::int)) xs) = []"
  by (induction xs) auto

text \<open>The walk for a positive quantity: it fills what the greedy consumption gives, the
  total value is accumulated in the Decimal context over the levels that gave something,
  and the ladder is left with what remains.\<close>

lemma walk_book_spec:
  assumes "distinct (map fst snap)" "list_all (\<lambda>(p, l). 0 < qty l) snap" "0 < q"
    and "\<forall>(p, l) \<in> set snap. map_of ladder p = Some l"
  shows "\<exists>ladder'. walk_book snap q f tv ladder =
      (f + consumed_quantity (greedy_fill snap q),
       foldl add_level_value tv (filter (\<lambda>(p, c). c \<noteq> 0) (greedy_fill snap q)), ladder') \<and>
     map_of ladder' = ladder_after (greedy_fill snap q) ladder"
  using assms
proof (induction snap arbitrary: q f tv ladder)
  case Nil
  then show ?case by (simp add: consumed_quantity_def ladder_after_def fun_eq_iff)
next
  case (Cons a snap)
  obtain p l where a: "a = (p, l)" by (cases a)
  define c where "c = min q (qty l)"
  define l1 where "l1 = l\<lparr>qty := qty l - c\<rparr>"
  define lad2 where "lad2 = (if qty l - c \<le> 0 then sd_delitem p (dict_mutate p l1 ladder)
                              else dict_mutate p l1 ladder)"
  define tv1 where "tv1 = dec_add tv (dec_mul (of_int c) p)"
  have lp: "map_of ladder p = Some l" using Cons.prems(4) a by simp
  have pos: "0 < qty l" using Cons.prems(2) a by simp
  have cpos: "c \<noteq> 0" using pos Cons.prems(3) by (simp add: c_def)
  have d: "distinct (map fst snap)" and pnot: "p \<notin> fst ` set snap"
    using Cons.prems(1) a by simp_all
  have la: "list_all (\<lambda>(p, l). 0 < qty l) snap" using Cons.prems(2) by simp
  have m2: "map_of lad2 = (map_of ladder)(p := if qty l - c \<le> 0 then None else Some l1)"
    unfolding lad2_def l1_def by (rule walk_step_ladder [OF lp])
  have rest: "\<forall>(p', l') \<in> set snap. map_of lad2 p' = Some l'"
  proof (clarify)
    fix p' l' assume in_snap: "(p', l') \<in> set snap"
    then have "p' \<noteq> p" using pnot by force
    moreover have "map_of ladder p' = Some l'" using Cons.prems(4) in_snap by auto
    ultimately show "map_of lad2 p' = Some l'" by (simp add: m2)
  qed
  have g: "greedy_fill (a # snap) q = (p, c) # greedy_fill snap (q - c)"
    by (simp add: a c_def)
  have step: "walk_book (a # snap) q f tv ladder =
      (if q - c = 0 then (f + c, tv1, lad2)
       else walk_book snap (q - c) (f + c) tv1 lad2)"
    by (simp add: a Let_def c_def l1_def lad2_def tv1_def)
  have fold_step: "foldl add_level_value tv (filter (\<lambda>(p, c). c \<noteq> 0) (greedy_fill (a # snap) q))
      = foldl add_level_value tv1 (filter (\<lambda>(p, c). c \<noteq> 0) (greedy_fill snap (q - c)))"
    using cpos by (simp add: g tv1_def add_level_value_def)
  have gn: "map_of (greedy_fill snap (q - c)) p = None"
    by (rule map_of_greedy_None [OF pnot])
  have after: "ladder_after (greedy_fill (a # snap) q) ladder
      = ladder_after (greedy_fill snap (q - c)) lad2"
  proof
    fix p'
    show "ladder_after (greedy_fill (a # snap) q) ladder p'
      = ladder_after (greedy_fill snap (q - c)) lad2 p'"
    proof (cases "p' = p")
      case True
      then show ?thesis using lp gn by (simp add: ladder_after_def g m2 l1_def)
    next
      case False
      then have "map_of lad2 p' = map_of ladder p'" by (simp add: m2)
      with False show ?thesis by (simp add: ladder_after_def g split: option.split)
    qed
  qed
  show ?case
  proof (cases "q - c = 0")
    case True
    have z: "greedy_fill snap (q - c) = map (\<lambda>(p, l). (p, 0)) snap"
      using greedy_fill_zero [OF la] True by simp
    have "ladder_after (greedy_fill snap (q - c)) lad2 = map_of lad2"
      unfolding z using ladder_after_zero [OF la rest] by (simp add: fun_eq_iff)
    with after have "map_of lad2 = ladder_after (greedy_fill (a # snap) q) ladder" by simp
    moreover have "foldl add_level_value tv (filter (\<lambda>(p, c). c \<noteq> 0) (greedy_fill (a # snap) q)) = tv1"
      by (simp only: fold_step z filter_zero_map foldl_Nil)
    moreover have "consumed_quantity (greedy_fill (a # snap) q) = c"
      using zero_sums(1) [of snap] by (simp add: g z consumed_quantity_def)
    ultimately have "walk_book (a # snap) q f tv ladder =
      (f + consumed_quantity (greedy_fill (a # snap) q),
       foldl add_level_value tv (filter (\<lambda>(p, c). c \<noteq> 0) (greedy_fill (a # snap) q)), lad2)
      \<and> map_of lad2 = ladder_after (greedy_fill (a # snap) q) ladder"
      using True by (simp only: step if_True) simp
    then show ?thesis by blast
  next
    case False
    have q1: "0 < q - c" using Cons.prems(3) False by (simp add: c_def min_def split: if_splits)
    from Cons.IH [OF d la q1 rest, of "f + c" tv1]
    obtain ladder' where
      w': "walk_book snap (q - c) (f + c) tv1 lad2 =
        (f + c + consumed_quantity (greedy_fill snap (q - c)),
         foldl add_level_value tv1 (filter (\<lambda>(p, c). c \<noteq> 0) (greedy_fill snap (q - c))), ladder')"
      and m': "map_of ladder' = ladder_after (greedy_fill snap (q - c)) lad2"
      by blast
    have cq: "consumed_quantity (greedy_fill (a # snap) q)
        = c + consumed_quantity (greedy_fill snap (q - c))"
      by (simp add: g consumed_quantity_def)
    have "walk_book (a # snap) q f tv ladder =
      (f + consumed_quantity (greedy_fill (a # snap) q),
       foldl add_level_value tv (filter (\<lambda>(p, c). c \<noteq> 0) (greedy_fill (a # snap) q)), ladder')"
      using False by (simp only: step if_False w' fold_step cq) simp
    moreover have "map_of ladder' = ladder_after (greedy_fill (a # snap) q) ladder"
      using m' after by simp
    ultimately show ?thesis by blast
  qed
qed

text \<open>The walk for a quantity that is not positive takes that quantity from the first
  level and stops.\<close>

lemma walk_book_nonpositive:
  assumes "0 < qty l" "q \<le> 0"
  shows "fst (walk_book ((p, l) # rest) q 0 tv ladder) = q"
  using assms by (simp add: Let_def)

lemma consumed_is_greedy_aux:
  assumes "distinct (map fst xs)" "list_all (\<lambda>(p, l). 0 < qty l) xs"
    and "\<forall>(p, l) \<in> set xs. map_of ladder p = Some l"
  shows "map (\<lambda>(p, l). (p, qty l - qty_opt (ladder_after (greedy_fill xs q) ladder p))) xs
       = greedy_fill xs q"
  using assms
proof (induction xs arbitrary: q)
  case Nil
  then show ?case by simp
next
  case (Cons a xs)
  obtain p l where a: "a = (p, l)" by (cases a)
  let ?c = "min q (qty l)"
  have lp: "map_of ladder p = Some l" using Cons.prems(3) a by simp
  have pnot: "p \<notin> fst ` set xs" and d: "distinct (map fst xs)"
    using Cons.prems(1) a by simp_all
  have la: "list_all (\<lambda>(p, l). 0 < qty l) xs" using Cons.prems(2) by simp
  have r: "\<forall>(p, l) \<in> set xs. map_of ladder p = Some l" using Cons.prems(3) by simp
  have g: "greedy_fill (a # xs) q = (p, ?c) # greedy_fill xs (q - ?c)"
    by (simp add: a)
  have hd: "qty l - qty_opt (ladder_after (greedy_fill (a # xs) q) ladder p) = ?c"
    using lp by (simp add: g ladder_after_def qty_opt_def)
  have tl: "map (\<lambda>(p, l). (p, qty l - qty_opt (ladder_after (greedy_fill (a # xs) q) ladder p))) xs
      = map (\<lambda>(p, l). (p, qty l - qty_opt (ladder_after (greedy_fill xs (q - ?c)) ladder p))) xs"
  proof (rule map_cong [OF refl])
    fix x assume x: "x \<in> set xs"
    obtain p' l' where x': "x = (p', l')" by (cases x)
    with x pnot have "p' \<noteq> p" by force
    then have "ladder_after (greedy_fill (a # xs) q) ladder p'
        = ladder_after (greedy_fill xs (q - ?c)) ladder p'"
      by (simp add: g ladder_after_def)
    then show "(case x of (p, l) \<Rightarrow> (p, qty l - qty_opt (ladder_after (greedy_fill (a # xs) q) ladder p)))
       = (case x of (p, l) \<Rightarrow> (p, qty l - qty_opt (ladder_after (greedy_fill xs (q - ?c)) ladder p)))"
      by (simp add: x')
  qed
  show ?case
    using hd tl Cons.IH [OF d la r, of "q - ?c"] by (simp add: a g)
qed

lemma consumed_is_greedy:
  assumes "ladder_ok xs" "map_of new = ladder_after (greedy_fill xs q) xs"
  shows "consumed_levels xs new = greedy_fill xs q"
proof -
  have d: "distinct (map fst xs)" and la: "list_all (\<lambda>(p, l). 0 < qty l) xs"
    using assms(1) by (simp_all add: ladder_ok_def)
  have self_map: "\<forall>(p, l) \<in> set xs. map_of xs p = Some l"
    using d by auto
  have "level_qty_at new p = qty_opt (ladder_after (greedy_fill xs q) xs p)" for p
    by (simp add: level_qty_at_def qty_opt_def assms(2))
  then have "consumed_levels xs new
      = map (\<lambda>(p, l). (p, qty l - qty_opt (ladder_after (greedy_fill xs q) xs p))) xs"
    by (simp add: consumed_levels_def)
  also have "\<dots> = greedy_fill xs q"
    by (rule consumed_is_greedy_aux [OF d la self_map])
  finally show ?thesis .
qed

lemma greedy_fill_total:
  assumes "list_all (\<lambda>(p, l). 0 < qty l) xs" "0 \<le> q"
  shows "consumed_quantity (greedy_fill xs q) = min q (total_liquidity xs)
     \<and> list_all (\<lambda>(p, c). 0 \<le> c) (greedy_fill xs q)"
  using assms
proof (induction xs arbitrary: q)
  case Nil
  then show ?case by (simp add: consumed_quantity_def total_liquidity_def)
next
  case (Cons a xs)
  obtain p l where a: "a = (p, l)" by (cases a)
  have pos: "0 < qty l" and la: "list_all (\<lambda>(p, l). 0 < qty l) xs"
    using Cons.prems(1) a by simp_all
  have q1: "0 \<le> q - min q (qty l)" using Cons.prems(2) by simp
  have tl0: "0 \<le> total_liquidity xs"
    using la by (induction xs) (auto simp: total_liquidity_def)
  from Cons.IH [OF la q1] show ?case
    using pos Cons.prems(2) tl0
    by (auto simp: a consumed_quantity_def total_liquidity_def min_def)
qed

lemma update_order_status_book [simp]:
  "order_book (update_order_status s oid st ts fq) = order_book s"
  by (simp add: update_order_status_def Let_def split: option.splits)

lemma update_order_status_cpc [simp]:
  "commission_per_contract (update_order_status s oid st ts fq) = commission_per_contract s"
  by (simp add: update_order_status_def Let_def split: option.splits)

lemma update_order_status_registered:
  assumes "submitted_orders s oid = Some stored"
  shows "\<exists>ev. event_queue (update_order_status s oid st ts fq) = event_queue s @ [OrderEv ev]
     \<and> order_id ev = oid \<and> status ev = st \<and> ord_timestamp ev = ts"
  using assms by (simp add: update_order_status_def Let_def)

lemma ladder_after_levels:
  assumes "distinct (map fst ladder)" "list_all (\<lambda>(p, l). 0 < qty l) ladder"
    and m: "map_of ladder1 = ladder_after cs ladder"
  shows "list_all (\<lambda>(p, l). map_of ladder1 p =
      (if level_qty_at ladder1 p = 0 then None
       else Some (l\<lparr>qty := level_qty_at ladder1 p\<rparr>))) ladder"
  unfolding list_all_iff
proof (clarify)
  fix p l assume pl: "(p, l) \<in> set ladder"
  then have lp: "map_of ladder p = Some l" using assms(1) by simp
  have pos: "0 < qty l" using assms(2) pl by (auto simp: list_all_iff)
  show "map_of ladder1 p =
      (if level_qty_at ladder1 p = 0 then None
       else Some (l\<lparr>qty := level_qty_at ladder1 p\<rparr>))"
  proof (cases "map_of cs p")
    case None
    then have "map_of ladder1 p = Some l" by (simp add: m ladder_after_def lp)
    then show ?thesis using pos by (simp add: level_qty_at_def)
  next
    case (Some c)
    then have "map_of ladder1 p = (if qty l - c \<le> 0 then None else Some (l\<lparr>qty := qty l - c\<rparr>))"
      by (simp add: m ladder_after_def lp)
    then show ?thesis by (simp add: level_qty_at_def)
  qed
qed

lemma ladder_after_keys:
  assumes m: "map_of ladder1 = ladder_after cs ladder"
  shows "fst ` set ladder1 \<subseteq> fst ` set ladder"
proof
  fix p assume "p \<in> fst ` set ladder1"
  then have "map_of ladder1 p \<noteq> None" by (simp add: map_of_eq_None_iff)
  then have "map_of ladder p \<noteq> None"
    by (auto simp: m ladder_after_def split: option.splits)
  then show "p \<in> fst ` set ladder" by (simp add: map_of_eq_None_iff)
qed

lemma total_liquidity_nonneg:
  "list_all (\<lambda>(p, l). 0 < qty l) ys \<Longrightarrow> 0 \<le> total_liquidity ys"
  by (induction ys) (auto simp: total_liquidity_def)

lemma total_liquidity_pos:
  assumes "list_all (\<lambda>(p, l). 0 < qty l) xs" "xs \<noteq> []"
  shows "0 < total_liquidity xs"
proof (cases xs)
  case Nil
  with assms show ?thesis by simp
next
  case (Cons a ys)
  obtain p l where a: "a = (p, l)" by (cases a)
  have "0 < qty l" "0 \<le> total_liquidity ys"
    using assms(1) Cons a total_liquidity_nonneg [of ys] by simp_all
  moreover have "total_liquidity xs = qty l + total_liquidity ys"
    by (simp add: Cons a total_liquidity_def)
  ultimately show ?thesis by simp
qed

lemma opposite_side_refresh [simp]:
  "opposite_side (refresh_best b) d = opposite_side b d"
  by (simp add: opposite_side_def refresh_best_def)

lemma update_order_status_events:
  "\<exists>ev. event_queue (update_order_status s oid st ts fq) = event_queue s @ status_events s oid ev
     \<and> order_id ev = oid \<and> status ev = st \<and> ord_timestamp ev = ts"
proof (cases "submitted_orders s oid")
  case None
  define ev0 where "ev0 = (undefined :: OrderEvent)\<lparr>order_id := oid, status := st, ord_timestamp := ts\<rparr>"
  have "event_queue (update_order_status s oid st ts fq) = event_queue s @ status_events s oid ev0"
    using None by (simp add: update_order_status_def status_events_def)
  moreover have "order_id ev0 = oid" "status ev0 = st" "ord_timestamp ev0 = ts"
    by (simp_all add: ev0_def)
  ultimately show ?thesis by blast
next
  case (Some stored)
  from update_order_status_registered [OF Some, of st ts fq] Some show ?thesis
    by (auto simp: status_events_def)
qed

text \<open>
  Claim C4, as the code has it. A MARKET order meets a ladder with one level per price and
  positive quantities. If the ladder is empty or the order quantity is not positive, no
  Fill is emitted and the only event is a REJECTED status of the order. Otherwise exactly
  one Fill is emitted and then one status event: the fill's quantity is the total
  consumed, which is positive and equals the smaller of the order quantity and the
  liquidity of the ladder; its price is the average price of the consumed levels as the
  Decimal context computes it (the products of quantity and price summed level by level
  and divided by the consumed quantity, every operation rounded half-even to 12
  significant digits); its commission is the Decimal product of the commission per
  contract and the filled quantity; the status is FILLED when the filled quantity is the
  order quantity and PARTIALLY_FILLED otherwise. In the book, a level with nothing left is
  deleted and every other level stays with what is left of it. A status event is emitted
  for an order that is in \<^verbatim>\<open>submitted_orders\<close>, as every order that the handler has
  created is when it is executed; for another order there is none.
\<close>

theorem market_order_execution:
  fixes self :: ExecutionHandler and order :: OrderEvent
  defines "ladder \<equiv> opposite_side (order_book self) (direction order)"
  defines "self' \<equiv> execute_market_order self order"
  defines "ladder' \<equiv> opposite_side (order_book self') (direction order)"
  defines "consumed \<equiv> consumed_levels ladder ladder'"
  assumes ok: "ladder_ok ladder"
  shows "if ladder = [] \<or> quantity order \<le> 0
         then (\<exists>st. event_queue self'
                       = event_queue self @ status_events self (order_id order) st
                 \<and> order_id st = order_id order \<and> status st = REJECTED)
         else (\<exists>fill st. event_queue self'
                       = event_queue self @ FillEv fill # status_events self (order_id order) st
                 \<and> fill_order_id fill = order_id order
                 \<and> quantity_filled fill = consumed_quantity consumed
                 \<and> 0 < consumed_quantity consumed
                 \<and> consumed_quantity consumed = min (quantity order) (total_liquidity ladder)
                 \<and> list_all (\<lambda>(p, c). 0 \<le> c) consumed
                 \<and> fill_price fill = decimal_average_price consumed
                 \<and> commission fill
                     = dec_mul (commission_per_contract self) (of_int (consumed_quantity consumed))
                 \<and> order_id st = order_id order
                 \<and> status st = (if consumed_quantity consumed = quantity order then FILLED
                                else PARTIALLY_FILLED)
                 \<and> fst ` set ladder' \<subseteq> fst ` set ladder
                 \<and> list_all (\<lambda>(p, l). map_of ladder' p =
                       (if level_qty_at ladder' p = 0 then None
                        else Some (l\<lparr>qty := level_qty_at ladder' p\<rparr>))) ladder)"
proof -
  have d: "distinct (map fst ladder)" and la: "list_all (\<lambda>(p, l). 0 < qty l) ladder"
    using ok by (simp_all add: ladder_ok_def)
  have side: "(if direction order = BUY then asks (order_book self) else bids (order_book self))
      = ladder"
    by (simp add: ladder_def opposite_side_def)
  consider (empty) "ladder = []" | (nonpos) "ladder \<noteq> []" "quantity order \<le> 0"
    | (pos) "ladder \<noteq> []" "0 < quantity order"
    by fastforce
  then show ?thesis
  proof cases
    case empty
    have "self' = reject_order self order"
      using empty by (simp add: self'_def execute_market_order_def Let_def side)
    with update_order_status_events [of self "order_id order" REJECTED "ord_timestamp order" None]
      empty
    show ?thesis by (auto simp: reject_order_def)
  next
    case nonpos
    from nonpos(1) obtain p l rest where lad: "ladder = (p, l) # rest"
      by (cases ladder) auto
    have pos: "0 < qty l" using la lad by simp
    obtain fq tv lad1 where w: "walk_book ladder (quantity order) 0 0 ladder = (fq, tv, lad1)"
      by (cases "walk_book ladder (quantity order) 0 0 ladder") auto
    have "fq = quantity order"
      using walk_book_nonpositive [OF pos nonpos(2), of p rest 0 ladder] w by (simp add: lad)
    then have fq: "\<not> 0 < fq" using nonpos(2) by simp
    define self1 where "self1 = self\<lparr>order_book := refresh_best
        (if direction order = BUY then (order_book self)\<lparr>asks := lad1\<rparr>
         else (order_book self)\<lparr>bids := lad1\<rparr>)\<rparr>"
    have "self' = reject_order self1 order"
      using nonpos(1) w fq
      by (simp add: self'_def execute_market_order_def Let_def side self1_def)
    moreover have "event_queue self1 = event_queue self"
      "status_events self1 (order_id order) = status_events self (order_id order)"
      by (simp_all add: self1_def status_events_def fun_eq_iff)
    ultimately show ?thesis
      using update_order_status_events [of self1 "order_id order" REJECTED "ord_timestamp order" None]
        nonpos(2)
      by (auto simp: reject_order_def)
  next
    case pos
    have self_map: "\<forall>(p, l) \<in> set ladder. map_of ladder p = Some l" using d by auto
    have q0: "0 \<le> quantity order" using pos(2) by simp
    let ?g = "greedy_fill ladder (quantity order)"
    from walk_book_spec [OF d la pos(2) self_map, of 0 0] obtain ladder1 where
      w: "walk_book ladder (quantity order) 0 0 ladder
          = (consumed_quantity ?g, decimal_total_value ?g, ladder1)"
      and m: "map_of ladder1 = ladder_after ?g ladder"
      by (auto simp: decimal_total_value_def)
    from greedy_fill_total [OF la q0] have
      tot: "consumed_quantity ?g = min (quantity order) (total_liquidity ladder)"
      and nn: "list_all (\<lambda>(p, c). 0 \<le> c) ?g" by simp_all
    have fpos: "0 < consumed_quantity ?g"
      using tot pos(2) total_liquidity_pos [OF la pos(1)] by simp
    define book1 where "book1 = (if direction order = BUY then (order_book self)\<lparr>asks := ladder1\<rparr>
         else (order_book self)\<lparr>bids := ladder1\<rparr>)"
    define fill where "fill = \<lparr> fill_timestamp = ord_timestamp order,
         fill_order_id = order_id order, fill_strategy_id = ord_strategy_id order,
         fill_symbol = ord_symbol order, fill_direction = direction order,
         quantity_filled = consumed_quantity ?g,
         fill_price = dec_div (decimal_total_value ?g) (of_int (consumed_quantity ?g)),
         commission = dec_mul (commission_per_contract self) (of_int (consumed_quantity ?g)),
         fill_linked_stop_price = linked_stop_price order,
         fill_linked_target_price = linked_target_price order \<rparr>"
    define self2 where "self2 = self\<lparr>order_book := refresh_best book1,
         event_queue := event_queue self @ [FillEv fill]\<rparr>"
    define fs where "fs = (if consumed_quantity ?g = quantity order then FILLED else PARTIALLY_FILLED)"
    have eq: "self' = update_order_status self2 (order_id order) fs (ord_timestamp order)
         (Some (consumed_quantity ?g))"
      using pos(1) fpos w
      by (simp add: self'_def execute_market_order_def Let_def side self2_def fill_def book1_def
          fs_def)
    have se: "status_events self2 (order_id order) = status_events self (order_id order)"
      by (simp add: self2_def status_events_def fun_eq_iff)
    from update_order_status_events [of self2 "order_id order" fs "ord_timestamp order"
        "Some (consumed_quantity ?g)"]
    obtain ev where e1: "event_queue (update_order_status self2 (order_id order) fs
          (ord_timestamp order) (Some (consumed_quantity ?g)))
        = event_queue self2 @ status_events self2 (order_id order) ev"
      and ev23: "order_id ev = order_id order" "status ev = fs"
      by blast
    have q2: "event_queue self2 = event_queue self @ [FillEv fill]"
      by (simp add: self2_def)
    have ev1: "event_queue self'
        = event_queue self @ FillEv fill # status_events self (order_id order) ev"
      by (simp only: eq e1 se q2) simp
    note ev = ev1 ev23
    have l': "ladder' = ladder1"
      by (simp add: ladder'_def eq self2_def book1_def opposite_side_def refresh_best_def)
    have cons: "consumed = ?g"
      unfolding consumed_def l' by (rule consumed_is_greedy [OF ok m])
    have lev: "list_all (\<lambda>(p, l). map_of ladder' p =
        (if level_qty_at ladder' p = 0 then None
         else Some (l\<lparr>qty := level_qty_at ladder' p\<rparr>))) ladder"
      unfolding l' by (rule ladder_after_levels [OF d la m])
    have keys: "fst ` set ladder' \<subseteq> fst ` set ladder"
      unfolding l' by (rule ladder_after_keys [OF m])
    have fill_facts: "fill_order_id fill = order_id order"
      "quantity_filled fill = consumed_quantity consumed"
      "fill_price fill = decimal_average_price consumed"
      "commission fill = dec_mul (commission_per_contract self) (of_int (consumed_quantity consumed))"
      by (simp_all add: fill_def cons decimal_average_price_def)
    have "\<exists>fill st. event_queue self'
                       = event_queue self @ FillEv fill # status_events self (order_id order) st
                 \<and> fill_order_id fill = order_id order
                 \<and> quantity_filled fill = consumed_quantity consumed
                 \<and> 0 < consumed_quantity consumed
                 \<and> consumed_quantity consumed = min (quantity order) (total_liquidity ladder)
                 \<and> list_all (\<lambda>(p, c). 0 \<le> c) consumed
                 \<and> fill_price fill = decimal_average_price consumed
                 \<and> commission fill
                     = dec_mul (commission_per_contract self) (of_int (consumed_quantity consumed))
                 \<and> order_id st = order_id order
                 \<and> status st = (if consumed_quantity consumed = quantity order then FILLED
                                else PARTIALLY_FILLED)
                 \<and> fst ` set ladder' \<subseteq> fst ` set ladder
                 \<and> list_all (\<lambda>(p, l). map_of ladder' p =
                       (if level_qty_at ladder' p = 0 then None
                        else Some (l\<lparr>qty := level_qty_at ladder' p\<rparr>))) ladder"
      apply (rule exI [of _ fill])
      apply (rule exI [of _ ev])
      using ev fill_facts fpos tot nn keys lev
      apply (simp only: cons fs_def)
      done
    with pos show ?thesis by (simp only: if_False) simp
  qed
qed

theorem market_order_execution_witness:
  "ladder_ok (opposite_side (order_book (example_submitted True MARKET 150)) BUY) \<and>
   (\<exists>fill st.
       event_queue (execute_market_order (example_submitted True MARKET 150) (example_entry MARKET 150))
         = [OrderEv (example_entry MARKET 150), FillEv fill, OrderEv st] \<and>
       quantity_filled fill = 150 \<and> fill_price fill = 595033333333 / 100000000 \<and>
       commission fill = 375 \<and> status st = FILLED)"
proof -
  let ?s = "example_submitted True MARKET 150" and ?o = "example_entry MARKET 150"
  let ?ladder = "opposite_side (order_book ?s) (direction ?o)"
  let ?ladder' = "opposite_side (order_book (execute_market_order ?s ?o)) (direction ?o)"
  have h1: "submitted_orders ?s (order_id ?o) \<noteq> None" by code_simp
  have h3: "ladder_ok ?ladder" by code_simp
  have d: "direction ?o = BUY" by code_simp
  have ne: "\<not> (?ladder = [] \<or> quantity ?o \<le> 0)" by code_simp
  have q: "event_queue ?s = [OrderEv ?o]" by code_simp
  have cq: "consumed_quantity (consumed_levels ?ladder ?ladder') = 150" by code_simp
  have wap: "decimal_average_price (consumed_levels ?ladder ?ladder') = 595033333333 / 100000000"
    by code_simp
  have comm: "dec_mul (commission_per_contract ?s) 150 = 375" by code_simp
  have qo: "quantity ?o = 150" by code_simp
  from market_order_execution [OF h3] ne
  obtain fill st where
    "event_queue (execute_market_order ?s ?o)
       = event_queue ?s @ FillEv fill # status_events ?s (order_id ?o) st"
    "quantity_filled fill = consumed_quantity (consumed_levels ?ladder ?ladder')"
    "fill_price fill = decimal_average_price (consumed_levels ?ladder ?ladder')"
    "commission fill = dec_mul (commission_per_contract ?s)
       (of_int (consumed_quantity (consumed_levels ?ladder ?ladder')))"
    "status st = (if consumed_quantity (consumed_levels ?ladder ?ladder') = quantity ?o then FILLED
                                else PARTIALLY_FILLED)"
    by (simp only: if_False) blast
  then have "event_queue (execute_market_order ?s ?o) = [OrderEv ?o, FillEv fill, OrderEv st]
     \<and> quantity_filled fill = 150 \<and> fill_price fill = 595033333333 / 100000000
     \<and> commission fill = 375 \<and> status st = FILLED"
    using h1 by (simp add: q cq wap comm qo status_events_def)
  then show ?thesis using h3 d by auto
qed

text \<open>
  Claim C4 as stated fails in two places. The order for 150 contracts on the synthetic
  book consumes 100 at 5950.25 and 50 at 5950.50: the quantity-weighted average price is
  17851/3, which no Decimal holds, and the fill carries 5950.33333333. An order for
  0 contracts meets a ladder that is not empty, and the only event is a REJECTED status:
  no Fill is emitted.
\<close>

theorem market_order_counterexample:
  "map fill_price (fills_of (event_queue
      (execute_market_order (example_submitted True MARKET 150) (example_entry MARKET 150))))
     = [595033333333 / 100000000] \<and>
   weighted_average_price
      (consumed_levels (asks (order_book (example_submitted True MARKET 150)))
         (asks (order_book
            (execute_market_order (example_submitted True MARKET 150) (example_entry MARKET 150)))))
     = 17851 / 3 \<and>
   (17851 / 3 :: rat) \<noteq> 595033333333 / 100000000 \<and>
   asks (order_book (example_submitted True MARKET 0)) \<noteq> [] \<and>
   fills_of (event_queue
      (execute_market_order (example_submitted True MARKET 0) (example_entry MARKET 0))) = [] \<and>
   statuses_of (event_queue
      (execute_market_order (example_submitted True MARKET 0) (example_entry MARKET 0)))
     = [(''ENTRY_1_42'', PENDING_SUBMIT), (''ENTRY_1_42'', REJECTED)]"
  by code_simp


section \<open>Controller: order of dispatch\<close>

lemma set_heapq_merge: "set (heapq_merge lt xs ys) = set xs \<union> set ys"
  by (induction lt xs ys rule: heapq_merge.induct) auto

lemma heapq_merge_sorted:
  "orders_by_timestamp lt \<Longrightarrow> timestamps_ascending xs \<Longrightarrow> timestamps_ascending ys
     \<Longrightarrow> timestamps_ascending (heapq_merge lt xs ys)"
proof (induction lt xs ys rule: heapq_merge.induct)
  case (1 lt ys)
  then show ?case by simp
next
  case (2 lt v va)
  then show ?case by simp
next
  case (3 lt x xs y ys)
  have le_xs: "\<forall>e \<in> set xs. event_timestamp x \<le> event_timestamp e"
    and le_ys: "\<forall>e \<in> set ys. event_timestamp y \<le> event_timestamp e"
    and sx: "timestamps_ascending xs" and sy: "timestamps_ascending ys"
    using "3.prems" by (auto simp: timestamps_ascending_def)
  show ?case
  proof (cases "lt y x")
    case True
    then have yx: "event_timestamp y \<le> event_timestamp x"
      using "3.prems"(1) by (auto simp: orders_by_timestamp_def)
    have "timestamps_ascending (heapq_merge lt (x # xs) ys)"
      using "3.IH"(1) [OF True "3.prems"(1) "3.prems"(2) sy] .
    moreover have "\<forall>e \<in> set (heapq_merge lt (x # xs) ys). event_timestamp y \<le> event_timestamp e"
      using yx le_xs le_ys by (auto simp: set_heapq_merge) 
    ultimately show ?thesis using True by (simp add: timestamps_ascending_def)
  next
    case False
    then have xy: "event_timestamp x \<le> event_timestamp y"
      using "3.prems"(1) by (auto simp: orders_by_timestamp_def not_le [symmetric])
    have "timestamps_ascending (heapq_merge lt xs (y # ys))"
      using "3.IH"(2) [OF False "3.prems"(1) sx "3.prems"(3)] .
    moreover have "\<forall>e \<in> set (heapq_merge lt xs (y # ys)). event_timestamp x \<le> event_timestamp e"
      using xy le_xs le_ys by (auto simp: set_heapq_merge)
    ultimately show ?thesis using False by (simp add: timestamps_ascending_def)
  qed
qed


lemma take_ascending: "timestamps_ascending xs \<Longrightarrow> timestamps_ascending (take n xs)"
  by (simp add: timestamps_ascending_def take_map [symmetric] sorted_wrt_take)

lemma timestamp_lt_orders: "orders_by_timestamp timestamp_lt"
  by (auto simp: orders_by_timestamp_def timestamp_lt_def)

text \<open>The loop dispatches a prefix of the stream it is given, whatever the handlers do.\<close>

lemma run_loop_prefix:
  "\<exists>rest. events = fst (run_loop handlers clock ok max_events self count events) @ rest"
proof (induction events arbitrary: self count)
  case Nil
  then show ?case by simp
next
  case (Cons event events)
  show ?case
  proof (cases "case max_events of None \<Rightarrow> False | Some m \<Rightarrow> m \<noteq> 0 \<and> count + 1 > m")
    case True
    then show ?thesis by (simp add: Let_def)
  next
    case False
    show ?thesis
    proof (cases "dispatch handlers clock ok (self\<lparr>current_time := event_timestamp event\<rparr>) event")
      case (Inl err)
      with False show ?thesis by (simp add: Let_def)
    next
      case (Inr self2)
      from Cons.IH [of self2 "count + 1"] obtain rest where
        "events = fst (run_loop handlers clock ok max_events self2 (count + 1) events) @ rest"
        by blast
      with False Inr show ?thesis
        by (simp add: Let_def split: prod.splits) (metis fst_conv)
    qed
  qed
qed

lemma prefix_ascending: "timestamps_ascending (xs @ ys) \<Longrightarrow> timestamps_ascending xs"
  by (simp add: timestamps_ascending_def sorted_append)

lemma run_loop_ascending:
  assumes "timestamps_ascending events"
  shows "timestamps_ascending (fst (run_loop handlers clock ok max_events self count events))"
proof -
  from run_loop_prefix [of events handlers clock ok max_events self count] obtain rest where
    "events = fst (run_loop handlers clock ok max_events self count events) @ rest" by blast
  with assms show ?thesis using prefix_ascending by metis
qed

lemma run_merged_dispatched:
  "fst (run_merged handlers clock ok lt max_events self market_stream)
     = fst (run_loop handlers clock ok max_events self 0 (merged_stream lt self market_stream))"
  by (simp add: run_merged_def split: prod.splits sum.splits)

text \<open>From any queue that stands in ascending order, merged with a sorted market stream
  under a comparison that agrees with the timestamps, the dispatch is in ascending
  order.\<close>

lemma run_merged_ascending:
  assumes "orders_by_timestamp lt" "timestamps_ascending (ctl_event_queue self)"
    "timestamps_ascending market_stream"
  shows "timestamps_ascending (fst (run_merged handlers clock ok lt max_events self market_stream))"
  unfolding run_merged_dispatched merged_stream_def
  by (rule run_loop_ascending [OF heapq_merge_sorted [OF assms]])

text \<open>\<^verbatim>\<open>_add_event\<close> with an event that is not less than any event of the queue appends
  it: pushes in ascending order of time leave the queue in that order.\<close>

lemma heappush_last:
  assumes "\<forall>x \<in> set heap. \<not> lt item x"
  shows "heappush lt heap item = heap @ [item]"
proof (cases "heap = []")
  case True
  then show ?thesis by (simp add: heappush_def)
next
  case False
  then have "(length heap - 1) div 2 < length heap" by (cases heap) auto
  then have "\<not> lt item ((heap @ [item]) ! ((length heap - 1) div 2))"
    using assms by (simp add: nth_append)
  with False show ?thesis by (simp add: heappush_def Let_def)
qed



section \<open>Controller: fills and linked exits\<close>

text \<open>The FILL branch of the loop updates the portfolio and the strategy; the execution
  handler is as it was.\<close>

lemma dispatch_fill_keeps_execution:
  "dispatch handlers clock ok c (FillEv f) = Inr c' \<Longrightarrow> execution_handler c' = execution_handler c"
  by (auto simp: dispatch_def split: sum.splits)

text \<open>\<^verbatim>\<open>_activate_linked_exits\<close> itself creates the stop order that the claim describes.\<close>

lemma activate_linked_exits_stop_order:
  assumes "linked_exit_orders s eid = Some exits"
    and "truthy_decimal (fill_linked_stop_price f)" and "\<not> truthy_string (stop_id exits)"
  shows "\<exists>ord rest. event_queue (activate_linked_exits clock s eid f)
        = event_queue s @ OrderEv ord # rest \<and>
      order_type ord = STOP_MARKET \<and> status ord = PENDING_SUBMIT \<and>
      direction ord = (if fill_direction f = BUY then SELL else BUY) \<and>
      quantity ord = quantity_filled f \<and> parent_order_id ord = Some eid \<and>
      stop_price ord = fill_linked_stop_price f \<and>
      ord_timestamp ord = fill_timestamp f + latency_signal_order_ns s"
  using assms
  by (auto simp: activate_linked_exits_def generate_order_id_def exit_order_def Let_def
      split: prod.splits)

text \<open>
  Claim C1 on the worked scenario. The entry order for one contract has been filled; the
  fill carries the linked stop price 5947.50 and the linked target price 5956.625, and the
  linkage record of the entry has no stop id and no target id. Dispatching the fill leaves
  the execution handler as it was: no child order is enqueued, and the linkage record still
  has no ids. \<^verbatim>\<open>_activate_linked_exits\<close>, called on the same state and fill, enqueues the
  STOP_MARKET and the LIMIT child; the loop never calls it.
\<close>

theorem fill_dispatch_activates_no_exit:
  "FillEv example_fill \<in> set (event_queue example_filled) \<and>
   linked_exit_orders example_filled ''ENTRY_1_42'' = Some \<lparr>stop_id = None, target_id = None\<rparr> \<and>
   (\<exists>c. dispatch example_handlers example_clock example_fromtimestamp_ok
          (example_controller example_filled)
          (FillEv example_fill) = Inr c \<and>
        event_queue (execution_handler c) = event_queue example_filled \<and>
        pending_stop_orders (execution_handler c) = [] \<and>
        pending_limit_orders (execution_handler c) = [] \<and>
        linked_exit_orders (execution_handler c) ''ENTRY_1_42''
          = Some \<lparr>stop_id = None, target_id = None\<rparr>) \<and>
   map (\<lambda>e. case e of OrderEv ord \<Rightarrow> (order_type ord, direction ord, quantity ord,
                                       parent_order_id ord, ord_timestamp ord)
              | _ \<Rightarrow> (MARKET, BUY, 0, None, 0))
     (drop (length (event_queue example_filled))
        (event_queue (activate_linked_exits example_clock example_filled ''ENTRY_1_42''
           example_fill)))
   = [(STOP_MARKET, SELL, 1, Some ''ENTRY_1_42'', 1100002),
      (LIMIT, SELL, 1, Some ''ENTRY_1_42'', 1100002)]"
proof -
  let ?d = "dispatch example_handlers example_clock example_fromtimestamp_ok
          (example_controller example_filled)
          (FillEv example_fill)"
  have "the_controller ?d \<noteq> None" by code_simp
  then obtain c where c: "?d = Inr c" by (cases ?d) auto
  have eh: "execution_handler c = example_filled"
    using dispatch_fill_keeps_execution [OF c] by (simp add: example_controller_def)
  have 1: "FillEv example_fill \<in> set (event_queue example_filled)" by code_simp
  have 2: "linked_exit_orders example_filled ''ENTRY_1_42''
      = Some \<lparr>stop_id = None, target_id = None\<rparr>" by code_simp
  have 3: "pending_stop_orders example_filled = []" "pending_limit_orders example_filled = []"
    by code_simp+
  have 4: "map (\<lambda>e. case e of OrderEv ord \<Rightarrow> (order_type ord, direction ord, quantity ord,
                                       parent_order_id ord, ord_timestamp ord)
              | _ \<Rightarrow> (MARKET, BUY, 0, None, 0))
     (drop (length (event_queue example_filled))
        (event_queue (activate_linked_exits example_clock example_filled ''ENTRY_1_42''
           example_fill)))
   = [(STOP_MARKET, SELL, 1, Some ''ENTRY_1_42'', 1100002),
      (LIMIT, SELL, 1, Some ''ENTRY_1_42'', 1100002)]" by code_simp
  show ?thesis
    using c eh 1 2 3 4 by simp
qed

end
